theory Spec2Isabelle
  imports Complex_Main
begin

section \<open>Hyperparameter search with a null-model loss cap\<close>

text \<open>
  A shallow embedding of \<^verbatim>\<open>examples/hyperparam/search_hyperopt.py\<close>: the trial
  evaluator \<^verbatim>\<open>eval\<close> built by \<^verbatim>\<open>new_eval\<close>, the results file it appends to, and the
  body of \<^verbatim>\<open>train\<close>, which evaluates the null model, runs the search and then scans the
  results file for the run with the smallest validation loss.
\<close>

subsection \<open>Python floats\<close>

text \<open>
  The program never computes with a loss: it compares losses with \<^verbatim>\<open><\<close> (directly, and
  inside \<^verbatim>\<open>min\<close>), prints them and reads them back. A float is therefore modelled by its
  value: a real number, the negative zero, one of the two infinities, or NaN. Every
  comparison with NaN is false, as in Python. The negative zero is a value of its own,
  printed differently from zero and equal to it in every comparison.
\<close>

datatype pyfloat = NaN | NegInf | Finite real | NegZero | PosInf

fun pf_less :: "pyfloat \<Rightarrow> pyfloat \<Rightarrow> bool" where
  "pf_less NaN y = False"
| "pf_less x NaN = False"
| "pf_less NegInf NegInf = False"
| "pf_less NegInf y = True"
| "pf_less x NegInf = False"
| "pf_less PosInf y = False"
| "pf_less x PosInf = True"
| "pf_less (Finite a) (Finite b) = (a < b)"
| "pf_less (Finite a) NegZero = (a < 0)"
| "pf_less NegZero (Finite b) = (0 < b)"
| "pf_less NegZero NegZero = False"

text \<open>Python's \<^verbatim>\<open>==\<close> and \<^verbatim>\<open><=\<close> on floats.\<close>

definition pf_eq :: "pyfloat \<Rightarrow> pyfloat \<Rightarrow> bool" where
  "pf_eq x y = (x \<noteq> NaN \<and> y \<noteq> NaN \<and> \<not> pf_less x y \<and> \<not> pf_less y x)"

definition pf_le :: "pyfloat \<Rightarrow> pyfloat \<Rightarrow> bool" where
  "pf_le x y = (pf_less x y \<or> pf_eq x y)"

text \<open>
  Python's \<^verbatim>\<open>min(a, b)\<close> keeps its first argument unless the second one is strictly
  smaller.
\<close>

definition py_min :: "pyfloat \<Rightarrow> pyfloat \<Rightarrow> pyfloat" where
  "py_min a b = (if pf_less b a then b else a)"

subsection \<open>Strings and files\<close>

text \<open>\<^verbatim>\<open>s.split(sep)\<close> for a one-character separator: every occurrence splits.\<close>

fun split_str :: "char \<Rightarrow> string \<Rightarrow> string list" where
  "split_str sep [] = [[]]"
| "split_str sep (c # cs) =
     (if c = sep then [] # split_str sep cs
      else (case split_str sep cs of
              [] \<Rightarrow> [[c]]
            | w # ws \<Rightarrow> (c # w) # ws))"

text \<open>
  \<^verbatim>\<open>f.readlines()\<close>: the content cut after every newline, the newline kept; a last line
  without a newline is a line too. A file's content is the text as Python reads it, every
  line ending already translated to a newline.
\<close>

fun readlines :: "string \<Rightarrow> string list" where
  "readlines [] = []"
| "readlines (c # cs) =
     (if c = CHR 0x0A then [c] # readlines cs
      else (case readlines cs of
              [] \<Rightarrow> [[c]]
            | l # ls \<Rightarrow> (c # l) # ls))"

datatype error =
    LaunchError
  | KeyError string
  | ValueError
  | TypeError
  | FileNotFoundError

subsection \<open>The scan of the results file\<close>

text \<open>
  The four local variables \<^verbatim>\<open>best_val_train\<close>, \<^verbatim>\<open>best_val_valid\<close>,
  \<^verbatim>\<open>best_val_test\<close> and \<^verbatim>\<open>best_run\<close> of \<^verbatim>\<open>train\<close>.
\<close>

record best =
  best_val_train :: pyfloat
  best_val_valid :: pyfloat
  best_val_test :: pyfloat
  best_run :: "string option"

definition best_init :: best where
  "best_init =
     \<lparr>best_val_train = PosInf, best_val_valid = PosInf, best_val_test = PosInf,
      best_run = None\<rparr>"

text \<open>
  One iteration of the loop over the lines. The parameter \<open>float\<close> is Python's
  \<^verbatim>\<open>float()\<close> on strings, \<open>None\<close> where it raises. Unpacking anything but four fields
  raises; the train and test fields are converted only when the line is the new best.
\<close>

definition scan_line :: "(string \<Rightarrow> pyfloat option) \<Rightarrow> best \<Rightarrow> string \<Rightarrow> error + best" where
  "scan_line float b line =
     (case split_str CHR '' '' line of
        [run_id, str_val, str_val2, str_val3] \<Rightarrow>
          (case float str_val2 of
             None \<Rightarrow> Inl ValueError
           | Some val \<Rightarrow>
               if pf_less val (best_val_valid b) then
                 (case float str_val of
                    None \<Rightarrow> Inl ValueError
                  | Some tr \<Rightarrow>
                      (case float str_val3 of
                         None \<Rightarrow> Inl ValueError
                       | Some te \<Rightarrow>
                           Inr \<lparr>best_val_train = tr, best_val_valid = val,
                                best_val_test = te, best_run = Some run_id\<rparr>))
               else Inr b)
      | _ \<Rightarrow> Inl ValueError)"

fun scan_lines :: "(string \<Rightarrow> pyfloat option) \<Rightarrow> best \<Rightarrow> string list \<Rightarrow> error + best" where
  "scan_lines float b [] = Inr b"
| "scan_lines float b (line # rest) =
     (case scan_line float b line of
        Inl e \<Rightarrow> Inl e
      | Inr b' \<Rightarrow> scan_lines float b' rest)"

subsection \<open>The collaborators outside the file\<close>

text \<open>
  What \<^verbatim>\<open>mlflow.projects.run\<close> is asked to do: the entry point's parameters and the
  experiment.
\<close>

record launch_req =
  req_training_data :: string
  req_epochs :: int
  req_learning_rate :: pyfloat
  req_momentum :: pyfloat
  req_seed :: int
  req_experiment_id :: int

text \<open>
  What the program sees of a submitted run: its id, the result of \<^verbatim>\<open>p.wait()\<close>, and
  the metrics that \<^verbatim>\<open>tracking_client.get_run(p.run_id)\<close> holds for it.
\<close>

record submitted_run =
  run_id :: string
  wait :: bool
  metrics :: "string \<rightharpoonup> pyfloat"

type_synonym params = "pyfloat \<times> pyfloat"

datatype eval_result = AllLosses pyfloat pyfloat pyfloat | ValidLoss pyfloat

text \<open>
  The environment: the project runner (its answer may depend on how many runs were
  launched before; \<open>Inl\<close> where launching raises), the two suggestion algorithms of
  hyperopt as functions of the observations so far, Python's formatting of a float and
  \<^verbatim>\<open>float()\<close>, and the experiment of the active run.
\<close>

record env =
  run_project :: "nat \<Rightarrow> launch_req \<Rightarrow> error + submitted_run"
  tpe_suggest :: "(params \<times> eval_result) list \<Rightarrow> params"
  rand_suggest :: "(params \<times> eval_result) list \<Rightarrow> params"
  str_float :: "pyfloat \<Rightarrow> string"
  float_str :: "string \<Rightarrow> pyfloat option"
  active_experiment_id :: int

text \<open>The command line options and the argument of \<^verbatim>\<open>train\<close>.\<close>

record config =
  training_data :: string
  max_runs :: int
  epochs :: int
  metric :: string
  algo :: string
  seed :: int
  training_experiment_id :: int

text \<open>
  Everything the program changes: the runs it launched, the runs it marked terminated,
  the metrics logged on the active run, the two files in the temporary directory
  (\<open>None\<close> while a file does not exist) and the artifacts logged (artifact path and
  content).
\<close>

record state =
  launched :: "launch_req list"
  terminated :: "(string \<times> string) list"
  logged_metrics :: "(string \<times> pyfloat) list"
  results :: "string option"
  best_run_txt :: "string option"
  artifacts :: "(string \<times> string) list"

subsection \<open>The trial evaluator\<close>

definition get_metric :: "submitted_run \<Rightarrow> string \<Rightarrow> error + pyfloat" where
  "get_metric training_run metric_name =
     (case metrics training_run metric_name of
        None \<Rightarrow> Inl (KeyError metric_name)
      | Some v \<Rightarrow> Inr v)"

text \<open>
  The losses of a trial, the \<^verbatim>\<open>if p.wait(): ... else: ...\<close> of \<^verbatim>\<open>eval\<close>: each metric
  capped at the loss of the null model when the run succeeded, the null losses when it
  failed. A metric that the run did not log raises.
\<close>

definition trial_losses ::
  "config \<Rightarrow> pyfloat \<Rightarrow> pyfloat \<Rightarrow> pyfloat \<Rightarrow> submitted_run \<Rightarrow>
     error + (pyfloat \<times> pyfloat \<times> pyfloat)" where
  "trial_losses cfg null_train_loss null_valid_loss null_test_loss p =
     (if wait p then
        (case get_metric p (''train_'' @ metric cfg) of
           Inl e \<Rightarrow> Inl e
         | Inr m_train \<Rightarrow>
             (case get_metric p (''val_'' @ metric cfg) of
                Inl e \<Rightarrow> Inl e
              | Inr m_val \<Rightarrow>
                  (case get_metric p (''test_'' @ metric cfg) of
                     Inl e \<Rightarrow> Inl e
                   | Inr m_test \<Rightarrow>
                       Inr (py_min null_train_loss m_train,
                            py_min null_valid_loss m_val,
                            py_min null_test_loss m_test))))
      else Inr (null_train_loss, null_valid_loss, null_test_loss))"

text \<open>The line written to the results file.\<close>

definition result_line :: "env \<Rightarrow> string \<Rightarrow> pyfloat \<Rightarrow> pyfloat \<Rightarrow> pyfloat \<Rightarrow> string" where
  "result_line E runId train_loss valid_loss test_loss =
     runId @ '' '' @ str_float E train_loss @ '' '' @ str_float E valid_loss @ '' '' @
     str_float E test_loss @ [CHR 0x0A]"

text \<open>\<^verbatim>\<open>open(path, "a")\<close> and \<^verbatim>\<open>write\<close>: the file is created when it is missing.\<close>

definition append_file :: "string option \<Rightarrow> string \<Rightarrow> string option" where
  "append_file f txt = (case f of None \<Rightarrow> Some txt | Some old \<Rightarrow> Some (old @ txt))"

text \<open>The arguments of \<^verbatim>\<open>mlflow.projects.run\<close> in \<^verbatim>\<open>eval\<close>.\<close>

definition launch_request :: "config \<Rightarrow> int \<Rightarrow> int \<Rightarrow> params \<Rightarrow> launch_req" where
  "launch_request cfg nepochs experiment_id ps =
     \<lparr>req_training_data = training_data cfg, req_epochs = nepochs,
      req_learning_rate = fst ps, req_momentum = snd ps,
      req_seed = seed cfg, req_experiment_id = experiment_id\<rparr>"

text \<open>
  \<^verbatim>\<open>eval\<close>, with the arguments of the enclosing \<^verbatim>\<open>new_eval\<close> first. The run is launched
  and waited for; a failed run is marked \<^verbatim>\<open>FAILED\<close>; the three losses are logged on
  the active run and appended to the results file; the result is the triple or the
  validation loss. An exception leaves the state as it was when it was raised.
\<close>

definition eval ::
  "env \<Rightarrow> config \<Rightarrow> int \<Rightarrow> int \<Rightarrow> pyfloat \<Rightarrow> pyfloat \<Rightarrow> pyfloat \<Rightarrow> bool \<Rightarrow> params \<Rightarrow>
     state \<Rightarrow> (error + eval_result) \<times> state" where
  "eval E cfg nepochs experiment_id null_train_loss null_valid_loss null_test_loss
        return_all ps s =
     (let req = launch_request cfg nepochs experiment_id ps;
          s1 = s\<lparr>launched := launched s @ [req]\<rparr>
      in case run_project E (length (launched s)) req of
           Inl e \<Rightarrow> (Inl e, s1)
         | Inr p \<Rightarrow>
             (case trial_losses cfg null_train_loss null_valid_loss null_test_loss p of
                Inl e \<Rightarrow> (Inl e, s1)
              | Inr (train_loss, valid_loss, test_loss) \<Rightarrow>
                  (let s2 = (if wait p then s1
                             else s1\<lparr>terminated :=
                                       terminated s1 @ [(run_id p, ''FAILED'')]\<rparr>);
                       s3 = s2\<lparr>logged_metrics := logged_metrics s2 @
                                  [(''train_'' @ metric cfg, train_loss),
                                   (''val_'' @ metric cfg, valid_loss),
                                   (''test_'' @ metric cfg, test_loss)]\<rparr>;
                       s4 = s3\<lparr>results :=
                                  append_file (results s3)
                                    (result_line E (run_id p) train_loss valid_loss
                                       test_loss)\<rparr>
                   in (Inr (if return_all then AllLosses train_loss valid_loss test_loss
                            else ValidLoss valid_loss), s4))))"

subsection \<open>The search driver\<close>

text \<open>
  Modelled from the spec: \<^verbatim>\<open>fmin\<close> belongs to the hyperopt library, which is not part
  of the source. The spec's Search Driver runs the objective once per unit of budget, one
  call after the other, each candidate proposed by the algorithm from the observations so
  far; an exception of the objective ends the search.
\<close>

fun fmin_loop ::
  "(params \<Rightarrow> state \<Rightarrow> (error + eval_result) \<times> state) \<Rightarrow>
   ((params \<times> eval_result) list \<Rightarrow> params) \<Rightarrow> nat \<Rightarrow> (params \<times> eval_result) list \<Rightarrow>
   state \<Rightarrow> (error + (params \<times> eval_result) list) \<times> state" where
  "fmin_loop fn suggest 0 obs s = (Inr obs, s)"
| "fmin_loop fn suggest (Suc n) obs s =
     (case fn (suggest obs) s of
        (Inl e, s') \<Rightarrow> (Inl e, s')
      | (Inr loss, s') \<Rightarrow> fmin_loop fn suggest n (obs @ [(suggest obs, loss)]) s')"

definition fmin ::
  "(params \<Rightarrow> state \<Rightarrow> (error + eval_result) \<times> state) \<Rightarrow>
   ((params \<times> eval_result) list \<Rightarrow> params) \<Rightarrow> int \<Rightarrow>
   state \<Rightarrow> (error + (params \<times> eval_result) list) \<times> state" where
  "fmin fn suggest max_evals s = fmin_loop fn suggest (nat max_evals) [] s"

subsection \<open>The end of the search\<close>

text \<open>
  The scan of the results file: the four variables start at infinity and \<^verbatim>\<open>None\<close>, the
  file is opened (which raises when it is missing) and every line is looked at once. The
  file is only read.
\<close>

definition aggregate :: "env \<Rightarrow> state \<Rightarrow> (error + best) \<times> state" where
  "aggregate E s =
     (case results s of
        None \<Rightarrow> (Inl FileNotFoundError, s)
      | Some content \<Rightarrow> (scan_lines (float_str E) best_init (readlines content), s))"

text \<open>\<^verbatim>\<open>"{run_id}".format(run_id=best_run)\<close>: a run id, or the word \<^verbatim>\<open>None\<close>.\<close>

definition str_run :: "string option \<Rightarrow> string" where
  "str_run r = (case r of None \<Rightarrow> ''None'' | Some i \<Rightarrow> i)"

text \<open>
  The part of \<^verbatim>\<open>train\<close> after the search: the results file is logged as an artifact
  (which needs the file), scanned, and the best run is written to \<^verbatim>\<open>best_run.txt\<close>,
  logged as an artifact and as three metrics; then the temporary directory is removed.
  The result is the value of the four variables, which the program itself only logs.
\<close>

definition report :: "env \<Rightarrow> config \<Rightarrow> state \<Rightarrow> (error + best) \<times> state" where
  "report E cfg s =
     (case results s of
        None \<Rightarrow> (Inl FileNotFoundError, s)
      | Some content \<Rightarrow>
          (let s1 = s\<lparr>artifacts := artifacts s @ [(''training_runs'', content)]\<rparr>
           in case aggregate E s1 of
                (Inl e, s2) \<Rightarrow> (Inl e, s2)
              | (Inr b, s2) \<Rightarrow>
                  (let txt = str_run (best_run b) @ '' '' @
                             str_float E (best_val_valid b) @ [CHR 0x0A];
                       s3 = s2\<lparr>best_run_txt := Some txt\<rparr>;
                       s4 = s3\<lparr>artifacts := artifacts s3 @ [(''best-run'', txt)]\<rparr>;
                       s5 = s4\<lparr>logged_metrics := logged_metrics s4 @
                                  [(''train_'' @ metric cfg, best_val_train b),
                                   (''val_'' @ metric cfg, best_val_valid b),
                                   (''test_'' @ metric cfg, best_val_test b)]\<rparr>;
                       s6 = s5\<lparr>results := None, best_run_txt := None\<rparr>
                   in (Inr b, s6))))"

subsection \<open>The whole of \<^verbatim>\<open>train\<close>\<close>

text \<open>
  The temporary directory is new, so both files are missing at the start. The null model
  is evaluated first, with zero epochs, parameters \<^verbatim>\<open>[0, 0]\<close> and infinite caps; its
  three losses are the caps of the search. Unpacking a single float into three variables
  raises. The result of \<^verbatim>\<open>fmin\<close> is only printed, which is left out.
\<close>

definition null_eval :: "env \<Rightarrow> config \<Rightarrow> int \<Rightarrow> state \<Rightarrow> (error + eval_result) \<times> state" where
  "null_eval E cfg experiment_id s =
     eval E cfg 0 experiment_id PosInf PosInf PosInf True (Finite 0, Finite 0) s"

definition search ::
  "env \<Rightarrow> config \<Rightarrow> int \<Rightarrow> pyfloat \<Rightarrow> pyfloat \<Rightarrow> pyfloat \<Rightarrow> state \<Rightarrow>
     (error + (params \<times> eval_result) list) \<times> state" where
  "search E cfg experiment_id train_null_loss valid_null_loss test_null_loss s =
     fmin (eval E cfg (epochs cfg) experiment_id train_null_loss valid_null_loss
             test_null_loss False)
          (if algo cfg = ''tpe.suggest'' then tpe_suggest E else rand_suggest E)
          (max_runs cfg) s"

definition train :: "env \<Rightarrow> config \<Rightarrow> state \<Rightarrow> (error + best) \<times> state" where
  "train E cfg s =
     (let s0 = s\<lparr>results := None, best_run_txt := None\<rparr>;
          experiment_id = (if training_experiment_id cfg = - 1 then active_experiment_id E
                           else training_experiment_id cfg)
      in case null_eval E cfg experiment_id s0 of
           (Inl e, s1) \<Rightarrow> (Inl e, s1)
         | (Inr (ValidLoss v), s1) \<Rightarrow> (Inl TypeError, s1)
         | (Inr (AllLosses train_null_loss valid_null_loss test_null_loss), s1) \<Rightarrow>
             (case search E cfg experiment_id train_null_loss valid_null_loss
                     test_null_loss s1 of
                (Inl e, s2) \<Rightarrow> (Inl e, s2)
              | (Inr obs, s2) \<Rightarrow> report E cfg s2))"

subsection \<open>The records of the results file, as the specification sees them\<close>

text \<open>
  A result record is a run id with its three losses. A line of the file stands for a
  record when it has four space-separated fields and the last three read as floats.
\<close>

record result_record =
  rec_id :: string
  rec_train :: pyfloat
  rec_valid :: pyfloat
  rec_test :: pyfloat

definition read_record :: "(string \<Rightarrow> pyfloat option) \<Rightarrow> string \<Rightarrow> result_record option" where
  "read_record float line =
     (case split_str CHR '' '' line of
        [i, a, b, c] \<Rightarrow>
          (case (float a, float b, float c) of
             (Some tr, Some va, Some te) \<Rightarrow>
               Some \<lparr>rec_id = i, rec_train = tr, rec_valid = va, rec_test = te\<rparr>
           | _ \<Rightarrow> None)
      | _ \<Rightarrow> None)"

definition best_of :: "result_record \<Rightarrow> best" where
  "best_of r =
     \<lparr>best_val_train = rec_train r, best_val_valid = rec_valid r,
      best_val_test = rec_test r, best_run = Some (rec_id r)\<rparr>"

text \<open>The line that stands for a record, as the evaluator writes it.\<close>

definition record_line :: "env \<Rightarrow> result_record \<Rightarrow> string" where
  "record_line E r = result_line E (rec_id r) (rec_train r) (rec_valid r) (rec_test r)"

text \<open>
  The specification's selection: the first record of the log whose validation loss no
  record of the log is below.
\<close>

definition spec_aggregate :: "result_record list \<Rightarrow> result_record option" where
  "spec_aggregate recs =
     find (\<lambda>r. \<forall>r' \<in> set recs. \<not> pf_less (rec_valid r') (rec_valid r)) recs"

text \<open>
  The same selection among the records with a validation loss below infinity (NaN is not
  below infinity).
\<close>

definition spec_aggregate_below_inf :: "result_record list \<Rightarrow> result_record option" where
  "spec_aggregate_below_inf recs =
     find (\<lambda>r. pf_less (rec_valid r) PosInf \<and>
                (\<forall>r' \<in> set recs. \<not> pf_less (rec_valid r') (rec_valid r))) recs"

text \<open>The minimum of two floats, as a relation: one of the two, and at most both.\<close>

definition is_min_of :: "pyfloat \<Rightarrow> pyfloat \<Rightarrow> pyfloat \<Rightarrow> bool" where
  "is_min_of x a b = ((x = a \<or> x = b) \<and> pf_le x a \<and> pf_le x b)"

text \<open>The content of a file, empty for a missing one.\<close>

definition content_of :: "string option \<Rightarrow> string" where
  "content_of f = (case f of None \<Rightarrow> [] | Some c \<Rightarrow> c)"

subsection \<open>An example environment\<close>

text \<open>
  The few float literals of the examples, written and read as Python does; \<^verbatim>\<open>float()\<close>
  ignores the newline at the end of the last field.
\<close>

definition example_literals :: "(string \<times> pyfloat) list" where
  "example_literals =
     [(''inf'', PosInf), (''-inf'', NegInf), (''nan'', NaN),
      (''0.0'', Finite 0), (''-0.0'', NegZero),
      (''1.2'', Finite 1.2), (''0.9'', Finite 0.9), (''0.8'', Finite 0.8),
      (''0.7'', Finite 0.7), (''0.6'', Finite 0.6), (''0.5'', Finite 0.5),
      (''0.4'', Finite 0.4)]"

definition example_float :: "string \<Rightarrow> pyfloat option" where
  "example_float s =
     map_of example_literals
       (if s \<noteq> [] \<and> last s = CHR 0x0A then butlast s else s)"

definition example_str :: "pyfloat \<Rightarrow> string" where
  "example_str x =
     (case find (\<lambda>kv. snd kv = x) example_literals of
        None \<Rightarrow> ''0.0''
      | Some kv \<Rightarrow> fst kv)"

definition example_metrics :: "pyfloat \<Rightarrow> pyfloat \<Rightarrow> pyfloat \<Rightarrow> string \<rightharpoonup> pyfloat" where
  "example_metrics a b c = [''train_rmse'' \<mapsto> a, ''val_rmse'' \<mapsto> b, ''test_rmse'' \<mapsto> c]"

text \<open>
  The runs of the example: the null model scores 1.2 on every set; the first trial fails;
  the second scores 0.6, 0.5 and 0.4; the third diverges and logs NaN; there is no
  fourth.
\<close>

definition example_runs :: "nat \<Rightarrow> launch_req \<Rightarrow> error + submitted_run" where
  "example_runs n req =
     (if n = 0 then
        Inr \<lparr>run_id = ''b0'', wait = True,
             metrics = example_metrics (Finite 1.2) (Finite 1.2) (Finite 1.2)\<rparr>
      else if n = 1 then
        Inr \<lparr>run_id = ''r1'', wait = False, metrics = Map.empty\<rparr>
      else if n = 2 then
        Inr \<lparr>run_id = ''r2'', wait = True,
             metrics = example_metrics (Finite 0.6) (Finite 0.5) (Finite 0.4)\<rparr>
      else if n = 3 then
        Inr \<lparr>run_id = ''r3'', wait = True, metrics = example_metrics NaN NaN NaN\<rparr>
      else Inl LaunchError)"

text \<open>Runs that all fail: the null model's run b0 and every trial's run r1.\<close>

definition failed_runs :: "nat \<Rightarrow> launch_req \<Rightarrow> error + submitted_run" where
  "failed_runs n req =
     Inr \<lparr>run_id = (if n = 0 then ''b0'' else ''r1''), wait = False, metrics = Map.empty\<rparr>"

definition example_env :: env where
  "example_env =
     \<lparr>run_project = example_runs,
      tpe_suggest = (\<lambda>obs. (Finite 0.5, Finite 0.9)),
      rand_suggest = (\<lambda>obs. (Finite 0.4, Finite 0.8)),
      str_float = example_str,
      float_str = example_float,
      active_experiment_id = 0\<rparr>"

definition example_cfg :: config where
  "example_cfg =
     \<lparr>training_data = ''data.csv'', max_runs = 1, epochs = 500, metric = ''rmse'',
      algo = ''tpe.suggest'', seed = 97531, training_experiment_id = - 1\<rparr>"

definition state_init :: state where
  "state_init =
     \<lparr>launched = [], terminated = [], logged_metrics = [], results = None,
      best_run_txt = None, artifacts = []\<rparr>"

section \<open>Properties\<close>

subsection \<open>The order of floats\<close>

lemma pf_less_irrefl: "\<not> pf_less x x"
  by (cases x) auto

lemma pf_less_trans: "pf_less x y \<Longrightarrow> pf_less y z \<Longrightarrow> pf_less x z"
  by (cases x; cases y; cases z) auto

lemma pf_less_asym: "pf_less x y \<Longrightarrow> \<not> pf_less y x"
  by (cases x; cases y) auto

lemma pf_not_less_trans:
  "x \<noteq> NaN \<Longrightarrow> y \<noteq> NaN \<Longrightarrow> \<not> pf_less y x \<Longrightarrow> pf_less y z \<Longrightarrow> pf_less x z"
  by (cases x; cases y; cases z) auto

lemma pf_le_refl: "x \<noteq> NaN \<Longrightarrow> pf_le x x"
  by (simp add: pf_le_def pf_eq_def pf_less_irrefl)

lemma pf_less_not_NaN: "pf_less x y \<Longrightarrow> x \<noteq> NaN \<and> y \<noteq> NaN"
  by (cases x; cases y) auto

lemma exists_least_below:
  "\<exists>x \<in> set rs. pf_less (rec_valid x) c \<Longrightarrow>
   \<exists>y \<in> set rs. pf_less (rec_valid y) c \<and> (\<forall>r' \<in> set rs. \<not> pf_less (rec_valid r') (rec_valid y))"
proof (induction rs)
  case Nil
  then show ?case by simp
next
  case (Cons r rs)
  show ?case
  proof (cases "\<exists>x \<in> set rs. pf_less (rec_valid x) c")
    case True
    then obtain y where y: "y \<in> set rs" "pf_less (rec_valid y) c"
      "\<forall>r' \<in> set rs. \<not> pf_less (rec_valid r') (rec_valid y)"
      using Cons.IH by blast
    show ?thesis
    proof (cases "pf_less (rec_valid r) (rec_valid y)")
      case True
      have "pf_less (rec_valid r) c" using True y(2) by (rule pf_less_trans)
      moreover have "\<forall>r' \<in> set (r # rs). \<not> pf_less (rec_valid r') (rec_valid r)"
        using y(3) True pf_less_trans pf_less_irrefl by auto
      ultimately show ?thesis by auto
    next
      case False
      then show ?thesis using y by auto
    qed
  next
    case False
    then have rc: "pf_less (rec_valid r) c" using Cons.prems by auto
    have "\<forall>r' \<in> set rs. \<not> pf_less (rec_valid r') (rec_valid r)"
      using False rc pf_less_trans by blast
    then show ?thesis using rc pf_less_irrefl by auto
  qed
qed

lemma scan_line_read:
  "read_record float line = Some r \<Longrightarrow>
   scan_line float b line =
     Inr (if pf_less (rec_valid r) (best_val_valid b) then best_of r else b)"
  by (auto simp: read_record_def scan_line_def best_of_def
           split: list.splits option.splits)

lemma scan_lines_read:
  "map (read_record float) lines = map Some recs \<Longrightarrow>
   scan_lines float b lines =
     Inr (foldl (\<lambda>b r. if pf_less (rec_valid r) (best_val_valid b) then best_of r else b)
            b recs)"
proof (induction lines arbitrary: b recs)
  case Nil
  then show ?case by simp
next
  case (Cons l ls)
  then obtain r rs where recs: "recs = r # rs" "read_record float l = Some r"
    "map (read_record float) ls = map Some rs"
    by (cases recs) auto
  show ?case using Cons.IH [OF recs(3)] recs(1,2)
    by (simp add: scan_line_read)
qed

subsection \<open>The running minimum\<close>

lemma best_of_valid: "best_val_valid (best_of r) = rec_valid r"
  by (simp add: best_of_def)

lemma running_min_find:
  "foldl (\<lambda>b r. if pf_less (rec_valid r) (best_val_valid b) then best_of r else b) b recs =
   (case find (\<lambda>r. pf_less (rec_valid r) (best_val_valid b) \<and>
                  (\<forall>r' \<in> set recs. \<not> pf_less (rec_valid r') (rec_valid r))) recs of
      None \<Rightarrow> b
    | Some r \<Rightarrow> best_of r)"
proof (induction recs arbitrary: b)
  case Nil
  then show ?case by simp
next
  case (Cons r rs)
  let ?c = "best_val_valid b"
  let ?f = "\<lambda>b r. if pf_less (rec_valid r) (best_val_valid b) then best_of r else b"
  let ?P = "\<lambda>x. pf_less (rec_valid x) ?c \<and>
                  (\<forall>r' \<in> set (r # rs). \<not> pf_less (rec_valid r') (rec_valid x))"
  let ?Q = "\<lambda>x. pf_less (rec_valid x) (rec_valid r) \<and>
                  (\<forall>r' \<in> set rs. \<not> pf_less (rec_valid r') (rec_valid x))"
  let ?R = "\<lambda>x. pf_less (rec_valid x) ?c \<and>
                  (\<forall>r' \<in> set rs. \<not> pf_less (rec_valid r') (rec_valid x))"
  show ?case
  proof (cases "pf_less (rec_valid r) ?c")
    case below: True
    have step: "foldl ?f b (r # rs) = (case find ?Q rs of None \<Rightarrow> best_of r | Some x \<Rightarrow> best_of x)"
      using below Cons.IH [of "best_of r"] by (simp add: best_of_valid)
    show ?thesis
    proof (cases "\<exists>x \<in> set rs. pf_less (rec_valid x) (rec_valid r)")
      case True
      then obtain y where y: "y \<in> set rs" "pf_less (rec_valid y) (rec_valid r)"
        "\<forall>r' \<in> set rs. \<not> pf_less (rec_valid r') (rec_valid y)"
        using exists_least_below [of rs "rec_valid r"] by blast
      have same: "find ?Q rs = find ?P rs"
      proof (rule find_cong [OF refl])
        fix x assume "x \<in> set rs"
        show "?Q x = ?P x"
        proof
          assume a: "?Q x"
          have "pf_less (rec_valid x) ?c"
            using a below pf_less_trans by blast
          moreover have "\<not> pf_less (rec_valid r) (rec_valid x)"
            using a pf_less_asym by blast
          ultimately show "?P x" using a by simp
        next
          assume a: "?P x"
          then have nyx: "\<not> pf_less (rec_valid y) (rec_valid x)" using y(1) by simp
          have "rec_valid x \<noteq> NaN"
            using a pf_less_not_NaN by blast
          moreover have "rec_valid y \<noteq> NaN"
            using y(2) pf_less_not_NaN by blast
          ultimately have "pf_less (rec_valid x) (rec_valid r)"
            using nyx y(2) pf_not_less_trans by blast
          then show "?Q x" using a by simp
        qed
      qed
      have notP: "\<not> ?P r" using True by simp
      have "?Q y" using y by simp
      then have "find ?Q rs \<noteq> None"
        using y(1) by (simp only: find_None_iff) blast
      then obtain z where z: "find ?Q rs = Some z" by blast
      have "find ?P (r # rs) = find ?P rs"
        using notP by (subst find.simps) (rule if_not_P)
      then have "find ?P (r # rs) = Some z"
        using same z by (simp only:)
      then show ?thesis using step z by (simp only: option.case)
    next
      case False
      then have "find ?Q rs = None"
        by (simp only: find_None_iff) blast
      moreover have "?P r" using below False pf_less_irrefl by simp
      then have "find ?P (r # rs) = Some r"
        by (subst find.simps) (rule if_P)
      ultimately show ?thesis using step by (simp only: option.case)
    qed
  next
    case False
    have same: "find ?R rs = find ?P rs"
    proof (rule find_cong [OF refl])
      fix x assume "x \<in> set rs"
      show "?R x = ?P x"
      proof
        assume a: "?R x"
        have "\<not> pf_less (rec_valid r) (rec_valid x)"
          using a False pf_less_trans by blast
        then show "?P x" using a by simp
      next
        assume "?P x"
        then show "?R x" by simp
      qed
    qed
    have "\<not> ?P r" using False by simp
    then have "find ?P (r # rs) = find ?P rs"
      by (subst find.simps) (rule if_not_P)
    moreover have "foldl ?f b (r # rs) = (case find ?R rs of None \<Rightarrow> b | Some x \<Rightarrow> best_of x)"
      using False Cons.IH [of b] by simp
    ultimately show ?thesis using same by (simp only:)
  qed
qed

subsection \<open>The scan of the results file\<close>

lemma below_inf_is_minimum:
  assumes "\<forall>r \<in> set recs. rec_valid r \<noteq> NaN"
    and "\<exists>r \<in> set recs. pf_less (rec_valid r) PosInf"
  shows "spec_aggregate_below_inf recs = spec_aggregate recs"
  unfolding spec_aggregate_below_inf_def spec_aggregate_def
proof (rule find_cong [OF refl])
  fix x assume x: "x \<in> set recs"
  obtain y where y: "y \<in> set recs" "pf_less (rec_valid y) PosInf"
    using assms(2) by blast
  show "(pf_less (rec_valid x) PosInf \<and>
           (\<forall>r' \<in> set recs. \<not> pf_less (rec_valid r') (rec_valid x))) =
        (\<forall>r' \<in> set recs. \<not> pf_less (rec_valid r') (rec_valid x))"
  proof
    assume "pf_less (rec_valid x) PosInf \<and>
           (\<forall>r' \<in> set recs. \<not> pf_less (rec_valid r') (rec_valid x))"
    then show "\<forall>r' \<in> set recs. \<not> pf_less (rec_valid r') (rec_valid x)" by simp
  next
    assume a: "\<forall>r' \<in> set recs. \<not> pf_less (rec_valid r') (rec_valid x)"
    then have "\<not> pf_less (rec_valid y) (rec_valid x)" using y(1) by simp
    moreover have "rec_valid x \<noteq> NaN" "rec_valid y \<noteq> NaN"
      using assms(1) x y(1) by simp_all
    ultimately have "pf_less (rec_valid x) PosInf"
      using y(2) pf_not_less_trans by blast
    then show "pf_less (rec_valid x) PosInf \<and>
           (\<forall>r' \<in> set recs. \<not> pf_less (rec_valid r') (rec_valid x))"
      using a by simp
  qed
qed

text \<open>
  Claim C1, as the code has it. Let the results file hold well-formed lines, standing for
  the records \<open>recs\<close>. When at least one of them has a validation loss below infinity,
  the scan returns the run id and the three losses of the first record whose validation
  loss is below infinity and has no record of the log below it; when no validation loss
  is NaN, that record is the first one with the minimum validation loss. When no record
  has a validation loss below infinity, the scan returns no run id and three infinities.
\<close>

theorem aggregate_first_minimum:
  assumes "results s = Some content"
    and "map (read_record (float_str E)) (readlines content) = map Some recs"
  shows "((\<exists>r \<in> set recs. pf_less (rec_valid r) PosInf) \<longrightarrow>
            (\<exists>r. spec_aggregate_below_inf recs = Some r \<and>
                 fst (aggregate E s) = Inr (best_of r) \<and>
                 ((\<forall>r' \<in> set recs. rec_valid r' \<noteq> NaN) \<longrightarrow>
                    spec_aggregate recs = Some r))) \<and>
         ((\<forall>r \<in> set recs. \<not> pf_less (rec_valid r) PosInf) \<longrightarrow>
            fst (aggregate E s) =
              Inr \<lparr>best_val_train = PosInf, best_val_valid = PosInf,
                   best_val_test = PosInf, best_run = None\<rparr>)"
proof -
  have "fst (aggregate E s) = scan_lines (float_str E) best_init (readlines content)"
    using assms(1) by (simp add: aggregate_def)
  also have "\<dots> = Inr (case spec_aggregate_below_inf recs of
                          None \<Rightarrow> best_init | Some x \<Rightarrow> best_of x)"
    unfolding spec_aggregate_below_inf_def
    using scan_lines_read [OF assms(2), of best_init] running_min_find [of best_init recs]
    by (simp add: best_init_def)
  finally have agg: "fst (aggregate E s) =
      Inr (case spec_aggregate_below_inf recs of None \<Rightarrow> best_init | Some x \<Rightarrow> best_of x)" .
  have some: "\<exists>r. spec_aggregate_below_inf recs = Some r \<and>
                 fst (aggregate E s) = Inr (best_of r) \<and>
                 ((\<forall>r' \<in> set recs. rec_valid r' \<noteq> NaN) \<longrightarrow> spec_aggregate recs = Some r)"
    if ex: "\<exists>r \<in> set recs. pf_less (rec_valid r) PosInf"
  proof -
    obtain y where y: "y \<in> set recs" "pf_less (rec_valid y) PosInf"
      "\<forall>r' \<in> set recs. \<not> pf_less (rec_valid r') (rec_valid y)"
      using exists_least_below [OF ex] by blast
    then have "spec_aggregate_below_inf recs \<noteq> None"
      unfolding spec_aggregate_below_inf_def by (simp only: find_None_iff) blast
    then obtain r where r: "spec_aggregate_below_inf recs = Some r" by blast
    have "fst (aggregate E s) = Inr (best_of r)" using agg r by simp
    moreover have "(\<forall>r' \<in> set recs. rec_valid r' \<noteq> NaN) \<longrightarrow> spec_aggregate recs = Some r"
      using below_inf_is_minimum [OF _ ex] r by simp
    ultimately show ?thesis using r by blast
  qed
  have none: "fst (aggregate E s) =
              Inr \<lparr>best_val_train = PosInf, best_val_valid = PosInf,
                   best_val_test = PosInf, best_run = None\<rparr>"
    if no: "\<forall>r \<in> set recs. \<not> pf_less (rec_valid r) PosInf"
  proof -
    have "spec_aggregate_below_inf recs = None"
      unfolding spec_aggregate_below_inf_def using no by (simp only: find_None_iff) blast
    then show ?thesis using agg by (simp add: best_init_def)
  qed
  show ?thesis using some none by blast
qed

text \<open>
  Scenario E: of the records r1 (0.8), r2 (0.5) and r3 (0.5) the scan returns r2.
\<close>

theorem aggregate_first_minimum_witness:
  "fst (aggregate example_env
          (state_init\<lparr>results :=
             Some ''r1 0.9 0.8 0.7\<newline>r2 0.6 0.5 0.4\<newline>r3 0.7 0.5 0.9\<newline>''\<rparr>)) =
     Inr \<lparr>best_val_train = Finite 0.6, best_val_valid = Finite 0.5,
          best_val_test = Finite 0.4, best_run = Some ''r2''\<rparr>"
proof -
  let ?content = "''r1 0.9 0.8 0.7\<newline>r2 0.6 0.5 0.4\<newline>r3 0.7 0.5 0.9\<newline>''"
  let ?s = "state_init\<lparr>results := Some ?content\<rparr>"
  let ?r2 = "\<lparr>rec_id = ''r2'', rec_train = Finite 0.6, rec_valid = Finite 0.5,
              rec_test = Finite 0.4\<rparr>"
  let ?recs = "[\<lparr>rec_id = ''r1'', rec_train = Finite 0.9, rec_valid = Finite 0.8,
                  rec_test = Finite 0.7\<rparr>, ?r2,
                \<lparr>rec_id = ''r3'', rec_train = Finite 0.7, rec_valid = Finite 0.5,
                  rec_test = Finite 0.9\<rparr>]"
  have h1: "results ?s = Some ?content" by simp
  have h2: "map (read_record (float_str example_env)) (readlines ?content) = map Some ?recs"
    by (simp add: read_record_def example_env_def example_float_def example_literals_def)
  have h3: "\<exists>r \<in> set ?recs. pf_less (rec_valid r) PosInf" by simp
  have sel: "spec_aggregate_below_inf ?recs = Some ?r2"
    by (simp add: spec_aggregate_below_inf_def)
  from aggregate_first_minimum [OF h1 h2] h3
  obtain r where "spec_aggregate_below_inf ?recs = Some r"
    "fst (aggregate example_env ?s) = Inr (best_of r)"
    by blast
  then show ?thesis using sel by (simp add: best_of_def)
qed

text \<open>
  A run of \<^verbatim>\<open>train\<close> in which the null model and the only trial fail: both lines of
  the log have an infinite validation loss, the first record is the minimum of the log,
  but no loss is below the initial infinity and no run id is reported.
\<close>

theorem aggregate_all_inf_counterexample:
  "artifacts (snd (train (example_env\<lparr>run_project := failed_runs\<rparr>) example_cfg
                     state_init)) =
     [(''training_runs'', ''b0 inf inf inf\<newline>r1 inf inf inf\<newline>''),
      (''best-run'', ''None inf\<newline>'')] \<and>
   map (read_record (float_str example_env))
     (readlines ''b0 inf inf inf\<newline>r1 inf inf inf\<newline>'') =
     [Some \<lparr>rec_id = ''b0'', rec_train = PosInf, rec_valid = PosInf, rec_test = PosInf\<rparr>,
      Some \<lparr>rec_id = ''r1'', rec_train = PosInf, rec_valid = PosInf, rec_test = PosInf\<rparr>] \<and>
   spec_aggregate
     [\<lparr>rec_id = ''b0'', rec_train = PosInf, rec_valid = PosInf, rec_test = PosInf\<rparr>,
      \<lparr>rec_id = ''r1'', rec_train = PosInf, rec_valid = PosInf, rec_test = PosInf\<rparr>] =
     Some \<lparr>rec_id = ''b0'', rec_train = PosInf, rec_valid = PosInf, rec_test = PosInf\<rparr> \<and>
   fst (train (example_env\<lparr>run_project := failed_runs\<rparr>) example_cfg state_init) =
     Inr \<lparr>best_val_train = PosInf, best_val_valid = PosInf, best_val_test = PosInf,
          best_run = None\<rparr>"
  by (simp add: train_def null_eval_def eval_def launch_request_def example_env_def
        example_cfg_def state_init_def failed_runs_def trial_losses_def search_def fmin_def
        report_def aggregate_def result_line_def append_file_def example_str_def
        example_literals_def scan_line_def example_float_def best_init_def str_run_def
        read_record_def spec_aggregate_def Let_def)

text \<open>
  Claim C9. The result of the scan depends on the content of the results file only: two
  states with the same file give the same result, whatever else differs. The scan leaves
  the state as it is, so a second scan gives the result of the first.
\<close>

theorem aggregate_deterministic:
  "results s2 = results s1 \<Longrightarrow>
     fst (aggregate E s2) = fst (aggregate E s1) \<and>
     snd (aggregate E s1) = s1 \<and>
     aggregate E (snd (aggregate E s1)) = aggregate E s1"
  by (simp add: aggregate_def split: option.splits)

theorem aggregate_deterministic_witness:
  "results (state_init\<lparr>results := Some ''r2 0.6 0.5 0.4\<newline>'', artifacts := [(''x'', ''y'')]\<rparr>) =
     results (state_init\<lparr>results := Some ''r2 0.6 0.5 0.4\<newline>''\<rparr>) \<and>
   fst (aggregate example_env
          (state_init\<lparr>results := Some ''r2 0.6 0.5 0.4\<newline>'', artifacts := [(''x'', ''y'')]\<rparr>)) =
     fst (aggregate example_env (state_init\<lparr>results := Some ''r2 0.6 0.5 0.4\<newline>''\<rparr>)) \<and>
   fst (aggregate example_env (state_init\<lparr>results := Some ''r2 0.6 0.5 0.4\<newline>''\<rparr>)) =
     Inr \<lparr>best_val_train = Finite 0.6, best_val_valid = Finite 0.5,
          best_val_test = Finite 0.4, best_run = Some ''r2''\<rparr>"
  using aggregate_deterministic
    [of "state_init\<lparr>results := Some ''r2 0.6 0.5 0.4\<newline>'', artifacts := [(''x'', ''y'')]\<rparr>"
        "state_init\<lparr>results := Some ''r2 0.6 0.5 0.4\<newline>''\<rparr>" example_env]
  by (simp add: aggregate_def example_env_def example_float_def example_literals_def
        scan_line_def best_init_def)

subsection \<open>The trial evaluator\<close>

lemma py_min_le_cap: "a \<noteq> NaN \<Longrightarrow> pf_le (py_min a b) a"
  by (simp add: py_min_def pf_le_def pf_eq_def pf_less_irrefl)

lemma py_min_eq_cap_iff: "a \<noteq> NaN \<Longrightarrow> (py_min a b = a) = (b = NaN \<or> pf_le a b)"
  by (cases a; cases b) (auto simp: py_min_def pf_le_def pf_eq_def)

lemma py_min_is_min: "a \<noteq> NaN \<Longrightarrow> b \<noteq> NaN \<Longrightarrow> is_min_of (py_min a b) a b"
  by (cases a; cases b) (auto simp: py_min_def pf_le_def pf_eq_def is_min_of_def)

lemma py_min_PosInf: "py_min PosInf m = (if m = NaN then PosInf else m)"
  by (cases m) (auto simp: py_min_def)

lemma py_min_not_NaN: "a \<noteq> NaN \<Longrightarrow> py_min a b \<noteq> NaN"
  by (cases a; cases b) (auto simp: py_min_def)

text \<open>
  Claim C4, as the code has it. For a run that succeeded and logged its three metrics,
  each loss is \<^verbatim>\<open>min(null, metric)\<close>: the metric when it is strictly below the null
  loss, the null loss otherwise. That is the minimum of the two whenever neither is NaN.
  For a failed run the losses are the null losses. When the null validation loss is not
  NaN, the validation loss is at most the null one, and equal to it exactly when the run
  failed, or its metric is NaN, or its metric is at least the null loss.
\<close>

theorem trial_losses_capped:
  assumes "wait p \<Longrightarrow>
             metrics p (''train_'' @ metric cfg) = Some m_train \<and>
             metrics p (''val_'' @ metric cfg) = Some m_val \<and>
             metrics p (''test_'' @ metric cfg) = Some m_test"
  shows "\<exists>t v te.
           trial_losses cfg nt nv ns p = Inr (t, v, te) \<and>
           (wait p \<longrightarrow> t = py_min nt m_train \<and> v = py_min nv m_val \<and> te = py_min ns m_test) \<and>
           (wait p \<and> nt \<noteq> NaN \<and> m_train \<noteq> NaN \<longrightarrow> is_min_of t nt m_train) \<and>
           (wait p \<and> nv \<noteq> NaN \<and> m_val \<noteq> NaN \<longrightarrow> is_min_of v nv m_val) \<and>
           (wait p \<and> ns \<noteq> NaN \<and> m_test \<noteq> NaN \<longrightarrow> is_min_of te ns m_test) \<and>
           (\<not> wait p \<longrightarrow> t = nt \<and> v = nv \<and> te = ns) \<and>
           (nv \<noteq> NaN \<longrightarrow>
              pf_le v nv \<and> ((v = nv) = (\<not> wait p \<or> m_val = NaN \<or> pf_le nv m_val)))"
proof (cases "wait p")
  case True
  then have "trial_losses cfg nt nv ns p =
               Inr (py_min nt m_train, py_min nv m_val, py_min ns m_test)"
    using assms by (simp add: trial_losses_def get_metric_def)
  then show ?thesis
    using True py_min_is_min py_min_le_cap py_min_eq_cap_iff by simp
next
  case False
  then have "trial_losses cfg nt nv ns p = Inr (nt, nv, ns)"
    by (simp add: trial_losses_def)
  then show ?thesis using False by (simp add: pf_le_refl)
qed

text \<open>
  Scenario B: a validation metric of 0.5 under a null loss of 1.2 stays 0.5.
\<close>

theorem trial_losses_capped_witness:
  "trial_losses example_cfg (Finite 1.2) (Finite 1.2) (Finite 1.2)
     \<lparr>run_id = ''r2'', wait = True,
      metrics = example_metrics (Finite 0.6) (Finite 0.5) (Finite 0.4)\<rparr> =
   Inr (Finite 0.6, Finite 0.5, Finite 0.4)"
proof -
  let ?p = "\<lparr>run_id = ''r2'', wait = True,
             metrics = example_metrics (Finite 0.6) (Finite 0.5) (Finite 0.4)\<rparr>"
  have h: "wait ?p \<Longrightarrow>
             metrics ?p (''train_'' @ metric example_cfg) = Some (Finite 0.6) \<and>
             metrics ?p (''val_'' @ metric example_cfg) = Some (Finite 0.5) \<and>
             metrics ?p (''test_'' @ metric example_cfg) = Some (Finite 0.4)"
    by (simp add: example_cfg_def example_metrics_def)
  from trial_losses_capped [OF h, of "Finite 1.2" "Finite 1.2" "Finite 1.2"]
  show ?thesis by (auto simp: py_min_def)
qed

text \<open>
  A run that succeeded and logged NaN gets the null losses, although NaN is not at least
  the null loss; and under a null loss of NaN every loss is NaN, which is not at most
  NaN.
\<close>

theorem trial_losses_nan_counterexample:
  "trial_losses example_cfg (Finite 1.2) (Finite 1.2) (Finite 1.2)
     \<lparr>run_id = ''r3'', wait = True, metrics = example_metrics NaN NaN NaN\<rparr> =
     Inr (Finite 1.2, Finite 1.2, Finite 1.2) \<and>
   \<not> pf_le (Finite 1.2) NaN \<and>
   trial_losses example_cfg NaN NaN NaN
     \<lparr>run_id = ''r2'', wait = True,
      metrics = example_metrics (Finite 0.6) (Finite 0.5) (Finite 0.4)\<rparr> =
     Inr (NaN, NaN, NaN) \<and>
   \<not> pf_le NaN NaN"
  by (simp add: trial_losses_def get_metric_def example_cfg_def example_metrics_def
        py_min_def pf_le_def pf_eq_def)

lemma eval_ok:
  assumes "run_project E (length (launched s)) (launch_request cfg nepochs ex ps) = Inr p"
    and "trial_losses cfg nt nv ns p = Inr (t, v, te)"
  shows "eval E cfg nepochs ex nt nv ns ra ps s =
           (Inr (if ra then AllLosses t v te else ValidLoss v),
            s\<lparr>launched := launched s @ [launch_request cfg nepochs ex ps],
              terminated := (if wait p then terminated s
                             else terminated s @ [(run_id p, ''FAILED'')]),
              logged_metrics := logged_metrics s @
                [(''train_'' @ metric cfg, t), (''val_'' @ metric cfg, v),
                 (''test_'' @ metric cfg, te)],
              results := append_file (results s) (result_line E (run_id p) t v te)\<rparr>)"
  using assms by (simp add: eval_def Let_def)

lemma eval_Inr:
  assumes "eval E cfg nepochs ex nt nv ns ra ps s = (Inr r, s')"
  shows "\<exists>p t v te.
           run_project E (length (launched s)) (launch_request cfg nepochs ex ps) = Inr p \<and>
           trial_losses cfg nt nv ns p = Inr (t, v, te)"
  using assms by (auto simp: eval_def Let_def split: sum.splits)

lemma eval_Inl:
  assumes "eval E cfg nepochs ex nt nv ns ra ps s = (Inl e, s')"
  shows "s' = s\<lparr>launched := launched s @ [launch_request cfg nepochs ex ps]\<rparr>"
  using assms by (auto simp: eval_def Let_def split: sum.splits)

lemma trial_losses_failed:
  "\<not> wait p \<Longrightarrow> trial_losses cfg nt nv ns p = Inr (nt, nv, ns)"
  by (simp add: trial_losses_def)

text \<open>
  Claim C5. When the run of a trial fails, the evaluator raises nothing: the run is marked
  \<^verbatim>\<open>FAILED\<close>, the three losses are exactly the null losses, they are logged and a line
  with them is appended to the results file, and the result is the null loss. The search
  goes on with the next candidate, the observation being the null validation loss.
\<close>

theorem eval_failed_run:
  assumes "run_project E (length (launched s)) (launch_request cfg nepochs ex ps) = Inr p"
    and "\<not> wait p"
  shows "(let s' = s\<lparr>launched := launched s @ [launch_request cfg nepochs ex ps],
                      terminated := terminated s @ [(run_id p, ''FAILED'')],
                      logged_metrics := logged_metrics s @
                        [(''train_'' @ metric cfg, nt), (''val_'' @ metric cfg, nv),
                         (''test_'' @ metric cfg, ns)],
                      results := append_file (results s)
                                   (result_line E (run_id p) nt nv ns)\<rparr>
          in eval E cfg nepochs ex nt nv ns ra ps s =
               (Inr (if ra then AllLosses nt nv ns else ValidLoss nv), s') \<and>
             (ps = suggest obs \<longrightarrow>
                fmin_loop (eval E cfg nepochs ex nt nv ns False) suggest (Suc n) obs s =
                fmin_loop (eval E cfg nepochs ex nt nv ns False) suggest n
                  (obs @ [(ps, ValidLoss nv)]) s'))"
proof -
  have tl: "trial_losses cfg nt nv ns p = Inr (nt, nv, ns)"
    using assms(2) by (rule trial_losses_failed)
  have ev: "eval E cfg nepochs ex nt nv ns b ps s =
           (Inr (if b then AllLosses nt nv ns else ValidLoss nv),
            s\<lparr>launched := launched s @ [launch_request cfg nepochs ex ps],
              terminated := terminated s @ [(run_id p, ''FAILED'')],
              logged_metrics := logged_metrics s @
                [(''train_'' @ metric cfg, nt), (''val_'' @ metric cfg, nv),
                 (''test_'' @ metric cfg, ns)],
              results := append_file (results s) (result_line E (run_id p) nt nv ns)\<rparr>)"
    for b
    using eval_ok [OF assms(1) tl, of b] assms(2) by simp
  show ?thesis
    unfolding Let_def
  proof (intro conjI impI)
    show "eval E cfg nepochs ex nt nv ns ra ps s =
           (Inr (if ra then AllLosses nt nv ns else ValidLoss nv),
            s\<lparr>launched := launched s @ [launch_request cfg nepochs ex ps],
              terminated := terminated s @ [(run_id p, ''FAILED'')],
              logged_metrics := logged_metrics s @
                [(''train_'' @ metric cfg, nt), (''val_'' @ metric cfg, nv),
                 (''test_'' @ metric cfg, ns)],
              results := append_file (results s) (result_line E (run_id p) nt nv ns)\<rparr>)"
      by (rule ev)
  next
    assume ps: "ps = suggest obs"
    show "fmin_loop (eval E cfg nepochs ex nt nv ns False) suggest (Suc n) obs s =
          fmin_loop (eval E cfg nepochs ex nt nv ns False) suggest n
            (obs @ [(ps, ValidLoss nv)])
            (s\<lparr>launched := launched s @ [launch_request cfg nepochs ex ps],
              terminated := terminated s @ [(run_id p, ''FAILED'')],
              logged_metrics := logged_metrics s @
                [(''train_'' @ metric cfg, nt), (''val_'' @ metric cfg, nv),
                 (''test_'' @ metric cfg, ns)],
              results := append_file (results s) (result_line E (run_id p) nt nv ns)\<rparr>)"
      using ev [of False] unfolding ps by (simp del: append.simps)
  qed
qed

text \<open>
  The first trial of the example fails under null losses of 1.2.
\<close>

theorem eval_failed_run_witness:
  "eval example_env example_cfg 500 0 (Finite 1.2) (Finite 1.2) (Finite 1.2) False
     (Finite 0.5, Finite 0.9)
     (state_init\<lparr>launched := [launch_request example_cfg 0 0 (Finite 0, Finite 0)],
                 results := Some ''b0 1.2 1.2 1.2\<newline>''\<rparr>) =
   (Inr (ValidLoss (Finite 1.2)),
    \<lparr>launched = [launch_request example_cfg 0 0 (Finite 0, Finite 0),
                 launch_request example_cfg 500 0 (Finite 0.5, Finite 0.9)],
     terminated = [(''r1'', ''FAILED'')],
     logged_metrics = [(''train_rmse'', Finite 1.2), (''val_rmse'', Finite 1.2),
                       (''test_rmse'', Finite 1.2)],
     results = Some ''b0 1.2 1.2 1.2\<newline>r1 1.2 1.2 1.2\<newline>'',
     best_run_txt = None, artifacts = []\<rparr>) \<and>
   (Finite 0.5, Finite 0.9) = tpe_suggest example_env []"
proof -
  let ?s = "state_init\<lparr>launched := [launch_request example_cfg 0 0 (Finite 0, Finite 0)],
                        results := Some ''b0 1.2 1.2 1.2\<newline>''\<rparr>"
  let ?p = "\<lparr>run_id = ''r1'', wait = False, metrics = Map.empty\<rparr>"
  have h1: "run_project example_env (length (launched ?s))
              (launch_request example_cfg 500 0 (Finite 0.5, Finite 0.9)) = Inr ?p"
    by (simp add: example_env_def example_runs_def)
  have h2: "\<not> wait ?p" by simp
  from eval_failed_run [OF h1 h2, where nt = "Finite 1.2" and nv = "Finite 1.2"
      and ns = "Finite 1.2" and ra = False and suggest = "tpe_suggest example_env"
      and obs = "[]" and n = 0]
  show ?thesis
    by (simp add: Let_def state_init_def example_cfg_def result_line_def append_file_def
          example_env_def example_str_def example_literals_def)
qed

lemma null_eval_not_NaN:
  assumes "null_eval E cfg ex s0 = (Inr (AllLosses bt bv bs), s1)"
  shows "bt \<noteq> NaN \<and> bv \<noteq> NaN \<and> bs \<noteq> NaN"
proof -
  obtain p t v te where p: "trial_losses cfg PosInf PosInf PosInf p = Inr (t, v, te)"
    and ok: "run_project E (length (launched s0))
               (launch_request cfg 0 ex (Finite 0, Finite 0)) = Inr p"
    using eval_Inr assms unfolding null_eval_def by blast
  have "AllLosses bt bv bs = AllLosses t v te"
    using eval_ok [OF ok p, of True] assms unfolding null_eval_def by simp
  moreover have "t \<noteq> NaN \<and> v \<noteq> NaN \<and> te \<noteq> NaN"
    using p by (auto simp: trial_losses_def py_min_not_NaN split: if_splits sum.splits)
  ultimately show ?thesis by simp
qed

lemma trial_losses_le_cap:
  assumes "trial_losses cfg nt nv ns p = Inr (t, v, te)" and "nv \<noteq> NaN"
  shows "pf_le v nv"
proof (cases "wait p")
  case True
  then obtain m where "v = py_min nv m"
    using assms(1) by (auto simp: trial_losses_def split: sum.splits)
  then show ?thesis using assms(2) by (simp add: py_min_le_cap)
next
  case False
  then have "v = nv" using assms(1) by (simp add: trial_losses_def)
  then show ?thesis using assms(2) by (simp add: pf_le_refl)
qed

text \<open>
  Claim C10, as the code has it. The null model is evaluated with three infinite caps.
  When its run succeeds, its losses are the metrics of the run, a NaN metric replaced
  by infinity; when it fails, they are three infinities. Under three infinite caps the
  losses of a trial that succeeds are its metrics, again with infinity for NaN.
\<close>

theorem null_eval_baseline:
  assumes "run_project E (length (launched s))
             (launch_request cfg 0 ex (Finite 0, Finite 0)) = Inr p"
    and "wait p \<Longrightarrow>
           metrics p (''train_'' @ metric cfg) = Some m_train \<and>
           metrics p (''val_'' @ metric cfg) = Some m_val \<and>
           metrics p (''test_'' @ metric cfg) = Some m_test"
  shows "fst (null_eval E cfg ex s) =
           Inr (if wait p then
                  AllLosses (if m_train = NaN then PosInf else m_train)
                            (if m_val = NaN then PosInf else m_val)
                            (if m_test = NaN then PosInf else m_test)
                else AllLosses PosInf PosInf PosInf) \<and>
         (wait q \<and> metrics q (''train_'' @ metric cfg) = Some k_train \<and>
          metrics q (''val_'' @ metric cfg) = Some k_val \<and>
          metrics q (''test_'' @ metric cfg) = Some k_test \<longrightarrow>
            trial_losses cfg PosInf PosInf PosInf q =
              Inr (if k_train = NaN then PosInf else k_train,
                   if k_val = NaN then PosInf else k_val,
                   if k_test = NaN then PosInf else k_test))"
proof -
  have "trial_losses cfg PosInf PosInf PosInf p =
          Inr (if wait p then (if m_train = NaN then PosInf else m_train,
                               if m_val = NaN then PosInf else m_val,
                               if m_test = NaN then PosInf else m_test)
               else (PosInf, PosInf, PosInf))"
    using assms(2) by (simp add: trial_losses_def get_metric_def py_min_PosInf)
  then have "fst (null_eval E cfg ex s) =
           Inr (if wait p then
                  AllLosses (if m_train = NaN then PosInf else m_train)
                            (if m_val = NaN then PosInf else m_val)
                            (if m_test = NaN then PosInf else m_test)
                else AllLosses PosInf PosInf PosInf)"
    using assms(1) by (simp add: null_eval_def eval_def Let_def)
  moreover have "wait q \<and> metrics q (''train_'' @ metric cfg) = Some k_train \<and>
          metrics q (''val_'' @ metric cfg) = Some k_val \<and>
          metrics q (''test_'' @ metric cfg) = Some k_test \<longrightarrow>
            trial_losses cfg PosInf PosInf PosInf q =
              Inr (if k_train = NaN then PosInf else k_train,
                   if k_val = NaN then PosInf else k_val,
                   if k_test = NaN then PosInf else k_test)"
    by (simp add: trial_losses_def get_metric_def py_min_PosInf)
  ultimately show ?thesis by simp
qed

text \<open>
  The null model of the example scores 1.2 three times; under infinite caps the second
  trial keeps 0.6, 0.5 and 0.4.
\<close>

theorem null_eval_baseline_witness:
  "fst (null_eval example_env example_cfg 0 state_init) =
     Inr (AllLosses (Finite 1.2) (Finite 1.2) (Finite 1.2)) \<and>
   trial_losses example_cfg PosInf PosInf PosInf
     \<lparr>run_id = ''r2'', wait = True,
      metrics = example_metrics (Finite 0.6) (Finite 0.5) (Finite 0.4)\<rparr> =
     Inr (Finite 0.6, Finite 0.5, Finite 0.4)"
proof -
  let ?p = "\<lparr>run_id = ''b0'', wait = True,
             metrics = example_metrics (Finite 1.2) (Finite 1.2) (Finite 1.2)\<rparr>"
  let ?q = "\<lparr>run_id = ''r2'', wait = True,
             metrics = example_metrics (Finite 0.6) (Finite 0.5) (Finite 0.4)\<rparr>"
  have h1: "run_project example_env (length (launched state_init))
             (launch_request example_cfg 0 0 (Finite 0, Finite 0)) = Inr ?p"
    by (simp add: example_env_def example_runs_def state_init_def)
  have h2: "wait ?p \<Longrightarrow>
           metrics ?p (''train_'' @ metric example_cfg) = Some (Finite 1.2) \<and>
           metrics ?p (''val_'' @ metric example_cfg) = Some (Finite 1.2) \<and>
           metrics ?p (''test_'' @ metric example_cfg) = Some (Finite 1.2)"
    by (simp add: example_cfg_def example_metrics_def)
  from null_eval_baseline [OF h1 h2, where q = ?q and k_train = "Finite 0.6"
      and k_val = "Finite 0.5" and k_test = "Finite 0.4"]
  show ?thesis by (simp add: example_cfg_def example_metrics_def)
qed

text \<open>
  A null model whose run succeeds and logs NaN: the losses are three infinities, not the
  metrics of the run.
\<close>

theorem null_eval_nan_counterexample:
  "run_project (example_env\<lparr>run_project := \<lambda>n. example_runs 3\<rparr>) 0
     (launch_request example_cfg 0 0 (Finite 0, Finite 0)) =
     Inr \<lparr>run_id = ''r3'', wait = True, metrics = example_metrics NaN NaN NaN\<rparr> \<and>
   fst (null_eval (example_env\<lparr>run_project := \<lambda>n. example_runs 3\<rparr>) example_cfg 0
          state_init) =
     Inr (AllLosses PosInf PosInf PosInf)"
  by (simp add: null_eval_def eval_def Let_def example_env_def example_runs_def
        trial_losses_def get_metric_def example_cfg_def example_metrics_def py_min_def
        state_init_def)

subsection \<open>The line appended to the results file\<close>

lemma readlines_Nil_iff: "(readlines xs = []) = (xs = [])"
  by (cases xs) (auto split: list.splits)

lemma readlines_one_line:
  "CHR 0x0A \<notin> set l \<Longrightarrow> readlines (l @ [CHR 0x0A]) = [l @ [CHR 0x0A]]"
  by (induction l) auto

lemma readlines_append_line:
  assumes "CHR 0x0A \<notin> set l" and "old = [] \<or> last old = CHR 0x0A"
  shows "readlines (old @ l @ [CHR 0x0A]) = readlines old @ [l @ [CHR 0x0A]]"
  using assms(2)
proof (induction old)
  case Nil
  then show ?case using assms(1) by (simp add: readlines_one_line)
next
  case (Cons c cs)
  show ?case
  proof (cases "c = CHR 0x0A")
    case True
    have "cs = [] \<or> last cs = CHR 0x0A" using Cons.prems by (cases cs) auto
    then show ?thesis using True Cons.IH by simp
  next
    case False
    then have cs: "cs \<noteq> []" "last cs = CHR 0x0A" using Cons.prems by (cases cs; simp)+
    then obtain k ks where k: "readlines cs = k # ks"
      using readlines_Nil_iff [of cs] by (cases "readlines cs") auto
    show ?thesis using False Cons.IH cs k by simp
  qed
qed

lemma split_str_not_Nil: "split_str sep xs \<noteq> []"
  by (cases xs) (auto split: list.splits)

lemma split_str_single: "sep \<notin> set a \<Longrightarrow> split_str sep a = [a]"
  by (induction a) auto

lemma split_str_field:
  "sep \<notin> set a \<Longrightarrow> split_str sep (a @ sep # rest) = a # split_str sep rest"
  by (induction a) auto

lemma split_result_line:
  assumes "CHR '' '' \<notin> set i" "CHR '' '' \<notin> set a" "CHR '' '' \<notin> set b"
    "CHR '' '' \<notin> set c"
  shows "split_str CHR '' '' (i @ '' '' @ a @ '' '' @ b @ '' '' @ c @ [CHR 0x0A]) =
           [i, a, b, c @ [CHR 0x0A]]"
proof -
  have "CHR '' '' \<notin> set (c @ [CHR 0x0A])" using assms(4) by simp
  then have "split_str CHR '' '' (c @ [CHR 0x0A]) = [c @ [CHR 0x0A]]"
    by (rule split_str_single)
  then show ?thesis
    using split_str_field [OF assms(1)] split_str_field [OF assms(2)]
      split_str_field [OF assms(3)]
    by simp
qed

text \<open>
  Claim C8. Every evaluation that returns has appended to the results file the id of its
  run and the three losses of the trial, the ones that \<open>trial_losses\<close> computes, each
  loss as Python prints it, separated by single spaces and ended by a newline. When no field contains a space, splitting the line at
  the spaces gives back the four fields; when no field contains a newline and the file
  held whole lines before, the file has exactly one line more.
\<close>

theorem eval_appends_one_line:
  assumes "eval E cfg nepochs ex nt nv ns ra ps s = (Inr r, s')"
  shows "\<exists>p t v te.
           run_project E (length (launched s)) (launch_request cfg nepochs ex ps) = Inr p \<and>
           trial_losses cfg nt nv ns p = Inr (t, v, te) \<and>
           r = (if ra then AllLosses t v te else ValidLoss v) \<and>
           results s' =
             Some (content_of (results s) @
                   run_id p @ '' '' @ str_float E t @ '' '' @ str_float E v @ '' '' @
                   str_float E te @ [CHR 0x0A]) \<and>
           (CHR '' '' \<notin> set (run_id p) \<and> CHR '' '' \<notin> set (str_float E t) \<and>
            CHR '' '' \<notin> set (str_float E v) \<and> CHR '' '' \<notin> set (str_float E te) \<longrightarrow>
              split_str CHR '' ''
                (run_id p @ '' '' @ str_float E t @ '' '' @ str_float E v @ '' '' @
                 str_float E te @ [CHR 0x0A]) =
              [run_id p, str_float E t, str_float E v, str_float E te @ [CHR 0x0A]]) \<and>
           (CHR 0x0A \<notin> set (run_id p) \<and> CHR 0x0A \<notin> set (str_float E t) \<and>
            CHR 0x0A \<notin> set (str_float E v) \<and> CHR 0x0A \<notin> set (str_float E te) \<and>
            (content_of (results s) = [] \<or> last (content_of (results s)) = CHR 0x0A) \<longrightarrow>
              readlines (content_of (results s')) =
              readlines (content_of (results s)) @
                [run_id p @ '' '' @ str_float E t @ '' '' @ str_float E v @ '' '' @
                 str_float E te @ [CHR 0x0A]])"
proof -
  obtain p t v te where p: "trial_losses cfg nt nv ns p = Inr (t, v, te)"
    and ok: "run_project E (length (launched s)) (launch_request cfg nepochs ex ps) = Inr p"
    using eval_Inr [OF assms] by blast
  let ?l = "run_id p @ '' '' @ str_float E t @ '' '' @ str_float E v @ '' '' @ str_float E te"
  have r: "r = (if ra then AllLosses t v te else ValidLoss v)"
    using eval_ok [OF ok p, of ra] assms by simp
  have "results s' = append_file (results s) (result_line E (run_id p) t v te)"
    using eval_ok [OF ok p, of ra] assms by auto
  then have res: "results s' = Some (content_of (results s) @ ?l @ [CHR 0x0A])"
    by (simp add: append_file_def result_line_def content_of_def split: option.splits)
  have sp: "CHR '' '' \<notin> set (run_id p) \<and> CHR '' '' \<notin> set (str_float E t) \<and>
            CHR '' '' \<notin> set (str_float E v) \<and> CHR '' '' \<notin> set (str_float E te) \<longrightarrow>
              split_str CHR '' '' (?l @ [CHR 0x0A]) =
              [run_id p, str_float E t, str_float E v, str_float E te @ [CHR 0x0A]]"
    using split_result_line [of "run_id p" "str_float E t" "str_float E v" "str_float E te"]
    by simp
  have rl: "CHR 0x0A \<notin> set (run_id p) \<and> CHR 0x0A \<notin> set (str_float E t) \<and>
            CHR 0x0A \<notin> set (str_float E v) \<and> CHR 0x0A \<notin> set (str_float E te) \<and>
            (content_of (results s) = [] \<or> last (content_of (results s)) = CHR 0x0A) \<longrightarrow>
              readlines (content_of (results s')) =
              readlines (content_of (results s)) @ [?l @ [CHR 0x0A]]"
  proof
    assume a: "CHR 0x0A \<notin> set (run_id p) \<and> CHR 0x0A \<notin> set (str_float E t) \<and>
            CHR 0x0A \<notin> set (str_float E v) \<and> CHR 0x0A \<notin> set (str_float E te) \<and>
            (content_of (results s) = [] \<or> last (content_of (results s)) = CHR 0x0A)"
    then have "CHR 0x0A \<notin> set ?l" by simp
    then have "readlines (content_of (results s) @ ?l @ [CHR 0x0A]) =
               readlines (content_of (results s)) @ [?l @ [CHR 0x0A]]"
      using a by (intro readlines_append_line) simp_all
    then show "readlines (content_of (results s')) =
              readlines (content_of (results s)) @ [?l @ [CHR 0x0A]]"
      using res by (simp add: content_of_def)
  qed
  show ?thesis
    using ok p r res sp rl
    by (intro exI [of _ p] exI [of _ t] exI [of _ v] exI [of _ te]) simp
qed

subsection \<open>The search and the whole run\<close>

text \<open>
  The second trial of the example, under null losses of 1.2: the line
  \<^verbatim>\<open>r2 0.6 0.5 0.4\<close> is added after the two lines of the file.
\<close>

theorem eval_appends_one_line_witness:
  "results (snd (eval example_env example_cfg 500 0 (Finite 1.2) (Finite 1.2) (Finite 1.2)
                   False (Finite 0.5, Finite 0.9)
                   (state_init\<lparr>launched := [launch_request example_cfg 0 0 (Finite 0, Finite 0),
                        launch_request example_cfg 500 0 (Finite 0.5, Finite 0.9)],
                      results := Some ''b0 1.2 1.2 1.2\<newline>r1 1.2 1.2 1.2\<newline>''\<rparr>))) =
     Some ''b0 1.2 1.2 1.2\<newline>r1 1.2 1.2 1.2\<newline>r2 0.6 0.5 0.4\<newline>'' \<and>
   split_str CHR '' '' ''r2 0.6 0.5 0.4\<newline>'' = [''r2'', ''0.6'', ''0.5'', ''0.4\<newline>''] \<and>
   readlines
     (content_of (results (snd (eval example_env example_cfg 500 0 (Finite 1.2)
                                  (Finite 1.2) (Finite 1.2) False (Finite 0.5, Finite 0.9)
                                  (state_init\<lparr>launched := [launch_request example_cfg 0 0 (Finite 0, Finite 0),
                        launch_request example_cfg 500 0 (Finite 0.5, Finite 0.9)],
                                     results :=
                                       Some ''b0 1.2 1.2 1.2\<newline>r1 1.2 1.2 1.2\<newline>''\<rparr>))))) =
     [''b0 1.2 1.2 1.2\<newline>'', ''r1 1.2 1.2 1.2\<newline>'', ''r2 0.6 0.5 0.4\<newline>'']"
proof -
  let ?s = "state_init\<lparr>launched := [launch_request example_cfg 0 0 (Finite 0, Finite 0),
                        launch_request example_cfg 500 0 (Finite 0.5, Finite 0.9)],
              results := Some ''b0 1.2 1.2 1.2\<newline>r1 1.2 1.2 1.2\<newline>''\<rparr>"
  let ?e = "eval example_env example_cfg 500 0 (Finite 1.2) (Finite 1.2) (Finite 1.2)
              False (Finite 0.5, Finite 0.9) ?s"
  have h: "?e = (Inr (ValidLoss (Finite 0.5)), snd ?e)"
    by (simp add: eval_def Let_def example_env_def example_runs_def
          trial_losses_def get_metric_def example_cfg_def example_metrics_def py_min_def
          state_init_def)
  from eval_appends_one_line [OF h] obtain p t v te where
    f1: "run_project example_env (length (launched ?s))
           (launch_request example_cfg 500 0 (Finite 0.5, Finite 0.9)) = Inr p"
    and f2: "trial_losses example_cfg (Finite 1.2) (Finite 1.2) (Finite 1.2) p =
               Inr (t, v, te)"
    and f3: "results (snd ?e) =
             Some (content_of (results ?s) @
                   run_id p @ '' '' @ str_float example_env t @ '' '' @
                   str_float example_env v @ '' '' @ str_float example_env te @ [CHR 0x0A])"
    and f4: "CHR '' '' \<notin> set (run_id p) \<and> CHR '' '' \<notin> set (str_float example_env t) \<and>
            CHR '' '' \<notin> set (str_float example_env v) \<and>
            CHR '' '' \<notin> set (str_float example_env te) \<longrightarrow>
              split_str CHR '' ''
                (run_id p @ '' '' @ str_float example_env t @ '' '' @
                 str_float example_env v @ '' '' @ str_float example_env te @ [CHR 0x0A]) =
              [run_id p, str_float example_env t, str_float example_env v,
               str_float example_env te @ [CHR 0x0A]]"
    and f5: "CHR 0x0A \<notin> set (run_id p) \<and> CHR 0x0A \<notin> set (str_float example_env t) \<and>
            CHR 0x0A \<notin> set (str_float example_env v) \<and>
            CHR 0x0A \<notin> set (str_float example_env te) \<and>
            (content_of (results ?s) = [] \<or> last (content_of (results ?s)) = CHR 0x0A) \<longrightarrow>
              readlines (content_of (results (snd ?e))) =
              readlines (content_of (results ?s)) @
                [run_id p @ '' '' @ str_float example_env t @ '' '' @
                 str_float example_env v @ '' '' @ str_float example_env te @ [CHR 0x0A]]"
    by blast
  have p: "p = \<lparr>run_id = ''r2'', wait = True,
                metrics = example_metrics (Finite 0.6) (Finite 0.5) (Finite 0.4)\<rparr>"
    using f1 by (simp add: example_env_def example_runs_def state_init_def)
  have tv: "t = Finite 0.6" "v = Finite 0.5" "te = Finite 0.4"
    using f2 unfolding p
    by (auto simp: trial_losses_def get_metric_def example_cfg_def example_metrics_def
          py_min_def)
  have str: "str_float example_env (Finite 0.6) = ''0.6''"
    "str_float example_env (Finite 0.5) = ''0.5''"
    "str_float example_env (Finite 0.4) = ''0.4''"
    by (simp_all add: example_env_def example_str_def example_literals_def)
  have c0: "content_of (results ?s) = ''b0 1.2 1.2 1.2\<newline>r1 1.2 1.2 1.2\<newline>''"
    by (simp add: content_of_def state_init_def)
  have rid: "run_id p = ''r2''" using p by simp
  show ?thesis
    using f3 f4 f5 unfolding rid tv str c0 by simp
qed

lemma eval_effect:
  assumes "eval E cfg n ex a b c ra ps s = (r, s')"
  shows "launched s' = launched s @ [launch_request cfg n ex ps] \<and>
         (\<exists>suffix. content_of (results s') = content_of (results s) @ suffix) \<and>
         (results s \<noteq> None \<longrightarrow> results s' \<noteq> None)"
proof (cases r)
  case (Inl e)
  then show ?thesis using eval_Inl assms by fastforce
next
  case (Inr x)
  then have ev: "eval E cfg n ex a b c ra ps s = (Inr x, s')" using assms by simp
  then obtain p t v te where p: "trial_losses cfg a b c p = Inr (t, v, te)"
    and ok: "run_project E (length (launched s)) (launch_request cfg n ex ps) = Inr p"
    using eval_Inr by blast
  show ?thesis
    using eval_ok [OF ok p, of ra] ev
    by (auto simp: append_file_def content_of_def split: option.splits)
qed

lemma fmin_loop_effect:
  assumes "fmin_loop (eval E cfg n ex a b c ra) suggest k obs s = (r, s')"
  shows "\<exists>reqs suffix.
           launched s' = launched s @ reqs \<and> length reqs \<le> k \<and>
           (\<forall>q \<in> set reqs. req_epochs q = n) \<and>
           ((\<exists>obs'. r = Inr obs') \<longrightarrow> length reqs = k) \<and>
           content_of (results s') = content_of (results s) @ suffix \<and>
           (results s \<noteq> None \<longrightarrow> results s' \<noteq> None)"
  using assms
proof (induction k arbitrary: obs s)
  case 0
  then show ?case by simp
next
  case (Suc k)
  obtain r1 s1 where e: "eval E cfg n ex a b c ra (suggest obs) s = (r1, s1)"
    by (cases "eval E cfg n ex a b c ra (suggest obs) s") blast
  from eval_effect [OF e] obtain suf1 where
    l1: "launched s1 = launched s @ [launch_request cfg n ex (suggest obs)]"
    and c1: "content_of (results s1) = content_of (results s) @ suf1"
    and n1: "results s \<noteq> None \<longrightarrow> results s1 \<noteq> None"
    by blast
  have ep: "req_epochs (launch_request cfg n ex (suggest obs)) = n"
    by (simp add: launch_request_def)
  show ?case
  proof (cases r1)
    case (Inl err)
    then have "r = Inl err" "s' = s1" using Suc.prems e by simp_all
    then show ?thesis using l1 c1 n1 ep
      by (intro exI [of _ "[launch_request cfg n ex (suggest obs)]"] exI [of _ suf1]) simp
  next
    case (Inr loss)
    then have "fmin_loop (eval E cfg n ex a b c ra) suggest k
                 (obs @ [(suggest obs, loss)]) s1 = (r, s')"
      using Suc.prems e by simp
    from Suc.IH [OF this] obtain reqs suf2 where
      i: "launched s' = launched s1 @ reqs" "length reqs \<le> k"
         "\<forall>q \<in> set reqs. req_epochs q = n"
         "(\<exists>obs'. r = Inr obs') \<longrightarrow> length reqs = k"
         "content_of (results s') = content_of (results s1) @ suf2"
         "results s1 \<noteq> None \<longrightarrow> results s' \<noteq> None"
      by blast
    show ?thesis using i l1 c1 n1 ep
      by (intro exI [of _ "launch_request cfg n ex (suggest obs) # reqs"]
            exI [of _ "suf1 @ suf2"]) simp
  qed
qed

lemma report_launched: "launched (snd (report E cfg s)) = launched s"
  by (simp add: report_def aggregate_def Let_def split: option.splits sum.splits)

lemma report_Inr:
  assumes "report E cfg s = (Inr b, s')"
  shows "\<exists>content. results s = Some content \<and>
           scan_lines (float_str E) best_init (readlines content) = Inr b \<and>
           (''training_runs'', content) \<in> set (artifacts s')"
  using assms
  by (auto simp: report_def aggregate_def Let_def split: option.splits sum.splits)

lemma train_cases:
  assumes "train E cfg s = (r, s')"
  shows "(\<exists>e. null_eval E cfg
                (if training_experiment_id cfg = - 1 then active_experiment_id E
                 else training_experiment_id cfg)
                (s\<lparr>results := None, best_run_txt := None\<rparr>) = (Inl e, s') \<and> r = Inl e) \<or>
         (\<exists>v. null_eval E cfg
                (if training_experiment_id cfg = - 1 then active_experiment_id E
                 else training_experiment_id cfg)
                (s\<lparr>results := None, best_run_txt := None\<rparr>) = (Inr (ValidLoss v), s') \<and>
              r = Inl TypeError) \<or>
         (\<exists>t v te s1.
            null_eval E cfg
              (if training_experiment_id cfg = - 1 then active_experiment_id E
               else training_experiment_id cfg)
              (s\<lparr>results := None, best_run_txt := None\<rparr>) = (Inr (AllLosses t v te), s1) \<and>
            ((\<exists>e. search E cfg
                     (if training_experiment_id cfg = - 1 then active_experiment_id E
                      else training_experiment_id cfg) t v te s1 = (Inl e, s') \<and> r = Inl e) \<or>
             (\<exists>obs s2. search E cfg
                     (if training_experiment_id cfg = - 1 then active_experiment_id E
                      else training_experiment_id cfg) t v te s1 = (Inr obs, s2) \<and>
                   report E cfg s2 = (r, s'))))"
  using assms
  by (auto simp: train_def Let_def split: prod.splits sum.splits eval_result.splits)

text \<open>
  Claim C7. Every call of the evaluator launches exactly one run, as its first action, so
  the launches count the calls. A run of \<^verbatim>\<open>train\<close> with a budget of at least one
  launches the null model first, with zero epochs and parameters \<^verbatim>\<open>[0, 0]\<close>, and then
  at most \<^verbatim>\<open>max_runs\<close> trials with the configured number of epochs; when
  \<^verbatim>\<open>train\<close> returns, the trials are exactly \<^verbatim>\<open>max_runs\<close>.
\<close>

theorem train_budget:
  assumes "1 \<le> max_runs cfg" and "train E cfg s = (r, s')"
  shows "\<exists>reqs.
           launched s' =
             launched s @
             launch_request cfg 0
               (if training_experiment_id cfg = - 1 then active_experiment_id E
                else training_experiment_id cfg) (Finite 0, Finite 0) # reqs \<and>
           int (length reqs) \<le> max_runs cfg \<and>
           (\<forall>q \<in> set reqs. req_epochs q = epochs cfg) \<and>
           ((\<exists>b. r = Inr b) \<longrightarrow> int (length reqs) = max_runs cfg)"
proof -
  let ?ex = "if training_experiment_id cfg = - 1 then active_experiment_id E
             else training_experiment_id cfg"
  let ?s0 = "s\<lparr>results := None, best_run_txt := None\<rparr>"
  let ?q0 = "launch_request cfg 0 ?ex (Finite 0, Finite 0)"
  have first: "launched s1 = launched s @ [?q0]" if "null_eval E cfg ?ex ?s0 = (x, s1)" for x s1
    using eval_effect that unfolding null_eval_def by fastforce
  from train_cases [OF assms(2)] consider
    (a) e where "null_eval E cfg ?ex ?s0 = (Inl e, s')" "r = Inl e"
  | (b) v where "null_eval E cfg ?ex ?s0 = (Inr (ValidLoss v), s')" "r = Inl TypeError"
  | (c) t v te s1 e where "null_eval E cfg ?ex ?s0 = (Inr (AllLosses t v te), s1)"
      "search E cfg ?ex t v te s1 = (Inl e, s')" "r = Inl e"
  | (d) t v te s1 obs s2 where "null_eval E cfg ?ex ?s0 = (Inr (AllLosses t v te), s1)"
      "search E cfg ?ex t v te s1 = (Inr obs, s2)" "report E cfg s2 = (r, s')"
    by blast
  then show ?thesis
  proof cases
    case a
    then show ?thesis using first [OF a(1)] assms(1) by (intro exI [of _ "[]"]) simp
  next
    case b
    then show ?thesis using first [OF b(1)] assms(1) by (intro exI [of _ "[]"]) simp
  next
    case c
    from fmin_loop_effect [OF c(2) [unfolded search_def fmin_def]] obtain reqs where
      "launched s' = launched s1 @ reqs" "length reqs \<le> nat (max_runs cfg)"
      "\<forall>q \<in> set reqs. req_epochs q = epochs cfg"
      by blast
    then show ?thesis using first [OF c(1)] c(3) assms(1)
      by (intro exI [of _ reqs]) simp
  next
    case d
    from fmin_loop_effect [OF d(2) [unfolded search_def fmin_def]] obtain reqs where
      "launched s2 = launched s1 @ reqs" "length reqs = nat (max_runs cfg)"
      "\<forall>q \<in> set reqs. req_epochs q = epochs cfg"
      by blast
    moreover have "launched s' = launched s2"
      using report_launched [of E cfg s2] d(3) by simp
    ultimately show ?thesis using first [OF d(1)] assms(1)
      by (intro exI [of _ reqs]) simp
  qed
qed

text \<open>
  Claim C3, as the code has it. The null model is evaluated by the same evaluator as the
  trials, which appends to the same results file: after it the new file holds exactly the
  line of the null model's run, and when \<^verbatim>\<open>train\<close> returns, the file that was logged
  as \<^verbatim>\<open>training_runs\<close> and scanned for the best run starts with that line.
\<close>

theorem null_record_in_results:
  assumes "train E cfg s = (Inr b, s')"
  shows "\<exists>p t v te rest.
           run_project E (length (launched s))
             (launch_request cfg 0
                (if training_experiment_id cfg = - 1 then active_experiment_id E
                 else training_experiment_id cfg) (Finite 0, Finite 0)) = Inr p \<and>
           trial_losses cfg PosInf PosInf PosInf p = Inr (t, v, te) \<and>
           results (snd (null_eval E cfg
                      (if training_experiment_id cfg = - 1 then active_experiment_id E
                       else training_experiment_id cfg)
                      (s\<lparr>results := None, best_run_txt := None\<rparr>))) =
             Some (result_line E (run_id p) t v te) \<and>
           (''training_runs'', result_line E (run_id p) t v te @ rest) \<in> set (artifacts s') \<and>
           scan_lines (float_str E) best_init
             (readlines (result_line E (run_id p) t v te @ rest)) = Inr b"
proof -
  let ?ex = "if training_experiment_id cfg = - 1 then active_experiment_id E
             else training_experiment_id cfg"
  let ?s0 = "s\<lparr>results := None, best_run_txt := None\<rparr>"
  from train_cases [OF assms] obtain t v te s1 obs s2 where
    n: "null_eval E cfg ?ex ?s0 = (Inr (AllLosses t v te), s1)"
    and se: "search E cfg ?ex t v te s1 = (Inr obs, s2)"
    and re: "report E cfg s2 = (Inr b, s')"
    by auto
  from eval_Inr [OF n [unfolded null_eval_def]] obtain p t' v' te' where
    ok: "run_project E (length (launched ?s0)) (launch_request cfg 0 ?ex (Finite 0, Finite 0)) =
           Inr p"
    and tl: "trial_losses cfg PosInf PosInf PosInf p = Inr (t', v', te')"
    by blast
  have r1: "results s1 = Some (result_line E (run_id p) t' v' te')"
    using eval_ok [OF ok tl, of True] n unfolding null_eval_def
    by (auto simp: append_file_def)
  from fmin_loop_effect [OF se [unfolded search_def fmin_def]] obtain rest where
    r2: "content_of (results s2) = content_of (results s1) @ rest"
    and nn: "results s1 \<noteq> None \<longrightarrow> results s2 \<noteq> None"
    by blast
  from report_Inr [OF re] obtain content where
    c: "results s2 = Some content"
    "scan_lines (float_str E) best_init (readlines content) = Inr b"
    "(''training_runs'', content) \<in> set (artifacts s')"
    by blast
  have "content = result_line E (run_id p) t' v' te' @ rest"
    using r1 r2 c(1) by (simp add: content_of_def)
  then show ?thesis
    using ok tl r1 c(2,3) n
    by (intro exI [of _ p] exI [of _ t'] exI [of _ v'] exI [of _ te'] exI [of _ rest]) simp
qed

lemmas example_defs =
  train_def null_eval_def eval_def launch_request_def example_env_def example_cfg_def
  state_init_def example_runs_def trial_losses_def get_metric_def example_metrics_def
  py_min_def search_def fmin_def report_def aggregate_def result_line_def append_file_def
  example_str_def example_literals_def scan_line_def example_float_def best_init_def
  str_run_def Let_def

text \<open>
  The example with a budget of three: four runs are launched, and the second trial wins.
\<close>

theorem train_budget_witness:
  "1 \<le> max_runs (example_cfg\<lparr>max_runs := 3\<rparr>) \<and>
   fst (train example_env (example_cfg\<lparr>max_runs := 3\<rparr>) state_init) =
     Inr \<lparr>best_val_train = Finite 0.6, best_val_valid = Finite 0.5,
          best_val_test = Finite 0.4, best_run = Some ''r2''\<rparr> \<and>
   length (launched (snd (train example_env (example_cfg\<lparr>max_runs := 3\<rparr>) state_init))) = 4"
proof -
  let ?cfg = "example_cfg\<lparr>max_runs := 3\<rparr>"
  let ?b = "\<lparr>best_val_train = Finite 0.6, best_val_valid = Finite 0.5,
             best_val_test = Finite 0.4, best_run = Some ''r2''\<rparr>"
  have h1: "1 \<le> max_runs ?cfg" by (simp add: example_cfg_def)
  have f: "fst (train example_env ?cfg state_init) = Inr ?b"
    by (simp add: example_defs numeral_3_eq_3)
  then have h2: "train example_env ?cfg state_init =
                   (Inr ?b, snd (train example_env ?cfg state_init))"
    by (metis prod.collapse)
  from train_budget [OF h1 h2] obtain reqs where
    "launched (snd (train example_env ?cfg state_init)) =
       launched state_init @
       launch_request ?cfg 0
         (if training_experiment_id ?cfg = - 1 then active_experiment_id example_env
          else training_experiment_id ?cfg) (Finite 0, Finite 0) # reqs"
    "int (length reqs) = max_runs ?cfg"
    by blast
  then have "length (launched (snd (train example_env ?cfg state_init))) = 4"
    by (simp add: state_init_def example_cfg_def)
  then show ?thesis using h1 f by simp
qed

text \<open>
  The example with a budget of one, where the only trial fails: the null model's run b0
  is the first record of the log.
\<close>

theorem null_record_in_results_witness:
  "train example_env example_cfg state_init =
     (Inr \<lparr>best_val_train = Finite 1.2, best_val_valid = Finite 1.2,
           best_val_test = Finite 1.2, best_run = Some ''b0''\<rparr>,
      snd (train example_env example_cfg state_init)) \<and>
   (\<exists>p t v te rest.
      run_project example_env (length (launched state_init))
        (launch_request example_cfg 0
           (if training_experiment_id example_cfg = - 1 then active_experiment_id example_env
            else training_experiment_id example_cfg) (Finite 0, Finite 0)) = Inr p \<and>
      trial_losses example_cfg PosInf PosInf PosInf p = Inr (t, v, te) \<and>
      results (snd (null_eval example_env example_cfg
                 (if training_experiment_id example_cfg = - 1
                  then active_experiment_id example_env
                  else training_experiment_id example_cfg)
                 (state_init\<lparr>results := None, best_run_txt := None\<rparr>))) =
        Some (result_line example_env (run_id p) t v te) \<and>
      (''training_runs'', result_line example_env (run_id p) t v te @ rest) \<in>
        set (artifacts (snd (train example_env example_cfg state_init))) \<and>
      scan_lines (float_str example_env) best_init
        (readlines (result_line example_env (run_id p) t v te @ rest)) =
        Inr \<lparr>best_val_train = Finite 1.2, best_val_valid = Finite 1.2,
             best_val_test = Finite 1.2, best_run = Some ''b0''\<rparr>)"
proof -
  let ?b = "\<lparr>best_val_train = Finite 1.2, best_val_valid = Finite 1.2,
             best_val_test = Finite 1.2, best_run = Some ''b0''\<rparr>"
  have "fst (train example_env example_cfg state_init) = Inr ?b"
    by (simp add: example_defs)
  then have h: "train example_env example_cfg state_init =
                  (Inr ?b, snd (train example_env example_cfg state_init))"
    by (metis prod.collapse)
  show ?thesis
    by (rule conjI [OF h null_record_in_results [OF h]])
qed

text \<open>
  In the example the evaluation of the null model writes the first line of the results
  file, the scan reads it, and the run reported as the best one is the null model's.
\<close>

theorem null_record_counterexample:
  "results (snd (null_eval example_env example_cfg 0 state_init)) =
     Some ''b0 1.2 1.2 1.2\<newline>'' \<and>
   results state_init = None \<and>
   fst (train example_env example_cfg state_init) =
     Inr \<lparr>best_val_train = Finite 1.2, best_val_valid = Finite 1.2,
          best_val_test = Finite 1.2, best_run = Some ''b0''\<rparr> \<and>
   artifacts (snd (train example_env example_cfg state_init)) =
     [(''training_runs'', ''b0 1.2 1.2 1.2\<newline>r1 1.2 1.2 1.2\<newline>''),
      (''best-run'', ''b0 1.2\<newline>'')]"
  by (simp add: example_defs)

subsection \<open>The records of a whole run\<close>

lemma eval_record:
  assumes "eval E cfg n ex a b c ra ps s = (r, s')" and "b \<noteq> NaN"
  shows "artifacts s' = artifacts s \<and> best_run_txt s' = best_run_txt s \<and>
         ((\<exists>e. r = Inl e) \<longrightarrow> results s' = results s) \<and>
         ((\<exists>x. r = Inr x) \<longrightarrow>
            (\<exists>t. results s' = Some (content_of (results s) @ record_line E t) \<and>
                 pf_le (rec_valid t) b \<and>
                 (\<exists>p. rec_id t = run_id p \<and>
                      trial_losses cfg a b c p =
                        Inr (rec_train t, rec_valid t, rec_test t))))"
proof (cases r)
  case (Inl e)
  then show ?thesis using eval_Inl assms(1) by fastforce
next
  case (Inr x)
  then have ev: "eval E cfg n ex a b c ra ps s = (Inr x, s')" using assms(1) by simp
  then obtain p t v te where p: "trial_losses cfg a b c p = Inr (t, v, te)"
    and ok: "run_project E (length (launched s)) (launch_request cfg n ex ps) = Inr p"
    using eval_Inr by blast
  let ?t = "\<lparr>rec_id = run_id p, rec_train = t, rec_valid = v, rec_test = te\<rparr>"
  have s': "s' = s\<lparr>launched := launched s @ [launch_request cfg n ex ps],
              terminated := (if wait p then terminated s
                             else terminated s @ [(run_id p, ''FAILED'')]),
              logged_metrics := logged_metrics s @
                [(''train_'' @ metric cfg, t), (''val_'' @ metric cfg, v),
                 (''test_'' @ metric cfg, te)],
              results := append_file (results s) (result_line E (run_id p) t v te)\<rparr>"
    using eval_ok [OF ok p, of ra] ev by simp
  have "results s' = Some (content_of (results s) @ record_line E ?t)"
    unfolding s' by (simp add: append_file_def content_of_def record_line_def
        split: option.splits)
  moreover have "pf_le (rec_valid ?t) b"
    using trial_losses_le_cap [OF p assms(2)] by simp
  moreover have "\<exists>q. rec_id ?t = run_id q \<and>
      trial_losses cfg a b c q = Inr (rec_train ?t, rec_valid ?t, rec_test ?t)"
    using p by (intro exI [of _ p]) simp
  moreover have "artifacts s' = artifacts s \<and> best_run_txt s' = best_run_txt s"
    unfolding s' by simp
  ultimately show ?thesis using Inr by blast
qed

lemma fmin_loop_records:
  assumes "fmin_loop (eval E cfg n ex a b c ra) suggest k obs s = (r, s')"
    and "b \<noteq> NaN" and "results s \<noteq> None"
  shows "\<exists>trials.
           results s' = Some (content_of (results s) @ concat (map (record_line E) trials)) \<and>
           (\<forall>t \<in> set trials.
              pf_le (rec_valid t) b \<and>
              (\<exists>p. rec_id t = run_id p \<and>
                   trial_losses cfg a b c p = Inr (rec_train t, rec_valid t, rec_test t))) \<and>
           length trials \<le> k \<and> ((\<exists>obs'. r = Inr obs') \<longrightarrow> length trials = k) \<and>
           artifacts s' = artifacts s \<and> best_run_txt s' = best_run_txt s"
  using assms(1,3)
proof (induction k arbitrary: obs s)
  case 0
  then show ?case
    by (intro exI [of _ "[]"]) (auto simp: content_of_def)
next
  case (Suc k)
  obtain r1 s1 where e: "eval E cfg n ex a b c ra (suggest obs) s = (r1, s1)"
    by (cases "eval E cfg n ex a b c ra (suggest obs) s") blast
  note er = eval_record [OF e assms(2)]
  show ?case
  proof (cases r1)
    case (Inl err)
    then have "r = Inl err" "s' = s1" using Suc.prems(1) e by simp_all
    then show ?thesis using er Inl Suc.prems(2)
      by (intro exI [of _ "[]"]) (auto simp: content_of_def)
  next
    case (Inr loss)
    then obtain t where t: "results s1 = Some (content_of (results s) @ record_line E t)"
      "pf_le (rec_valid t) b"
      "\<exists>p. rec_id t = run_id p \<and>
           trial_losses cfg a b c p = Inr (rec_train t, rec_valid t, rec_test t)"
      using er by blast
    have rest: "fmin_loop (eval E cfg n ex a b c ra) suggest k
                 (obs @ [(suggest obs, loss)]) s1 = (r, s')"
      using Suc.prems(1) e Inr by simp
    have "results s1 \<noteq> None" using t(1) by simp
    from Suc.IH [OF rest this] obtain trials where
      i: "results s' = Some (content_of (results s1) @ concat (map (record_line E) trials))"
         "\<forall>t \<in> set trials.
              pf_le (rec_valid t) b \<and>
              (\<exists>p. rec_id t = run_id p \<and>
                   trial_losses cfg a b c p = Inr (rec_train t, rec_valid t, rec_test t))"
         "length trials \<le> k" "(\<exists>obs'. r = Inr obs') \<longrightarrow> length trials = k"
         "artifacts s' = artifacts s1" "best_run_txt s' = best_run_txt s1"
      by blast
    show ?thesis using i t er
      by (intro exI [of _ "t # trials"]) (simp add: content_of_def)
  qed
qed

lemma null_eval_record:
  assumes "null_eval E cfg ex s0 = (Inr x, s1)" and "results s0 = None"
  shows "\<exists>r0 p0.
           x = AllLosses (rec_train r0) (rec_valid r0) (rec_test r0) \<and>
           run_project E (length (launched s0))
             (launch_request cfg 0 ex (Finite 0, Finite 0)) = Inr p0 \<and>
           rec_id r0 = run_id p0 \<and>
           trial_losses cfg PosInf PosInf PosInf p0 =
             Inr (rec_train r0, rec_valid r0, rec_test r0) \<and>
           rec_valid r0 \<noteq> NaN \<and>
           results s1 = Some (record_line E r0) \<and>
           artifacts s1 = artifacts s0 \<and> best_run_txt s1 = best_run_txt s0"
proof -
  from eval_Inr [OF assms(1) [unfolded null_eval_def]] obtain p t v te where
    ok: "run_project E (length (launched s0)) (launch_request cfg 0 ex (Finite 0, Finite 0)) =
           Inr p"
    and tl: "trial_losses cfg PosInf PosInf PosInf p = Inr (t, v, te)"
    by blast
  let ?r0 = "\<lparr>rec_id = run_id p, rec_train = t, rec_valid = v, rec_test = te\<rparr>"
  have x: "x = AllLosses t v te"
    using eval_ok [OF ok tl, of True] assms(1) unfolding null_eval_def by simp
  then have "null_eval E cfg ex s0 = (Inr (AllLosses t v te), s1)" using assms(1) by simp
  then have nn: "v \<noteq> NaN" using null_eval_not_NaN by blast
  have "results s1 = Some (record_line E ?r0) \<and>
        artifacts s1 = artifacts s0 \<and> best_run_txt s1 = best_run_txt s0"
    using eval_ok [OF ok tl, of True] assms unfolding null_eval_def
    by (auto simp: append_file_def record_line_def)
  then show ?thesis using x ok tl nn
    by (intro exI [of _ ?r0] exI [of _ p]) simp
qed

lemma report_result:
  assumes "report E cfg s = (r, s')"
  shows "(\<forall>e. r = Inl e \<longrightarrow>
            results s' = results s \<and> best_run_txt s' = best_run_txt s \<and>
            (\<forall>x. (''best-run'', x) \<in> set (artifacts s') \<longrightarrow>
                 (''best-run'', x) \<in> set (artifacts s))) \<and>
         (\<forall>b. r = Inr b \<longrightarrow>
            (\<exists>content. results s = Some content \<and>
               scan_lines (float_str E) best_init (readlines content) = Inr b \<and>
               (''training_runs'', content) \<in> set (artifacts s')))"
  using assms
  by (auto simp: report_def aggregate_def Let_def split: option.splits sum.splits)

text \<open>
  Claim C6. In every run of \<^verbatim>\<open>train\<close> in which the evaluation of the null model
  returns, the results file is the line of the null model's record followed by the lines
  of the trials' records, one per trial of the search, at most \<^verbatim>\<open>max_runs\<close> of them.
  The caps of every trial are the three losses of the null model's record, the losses of
  every trial are the ones \<open>trial_losses\<close> computes under these caps from the trial's
  run, succeeded or failed, and the validation loss of every trial's record is at most
  the null model's. When \<^verbatim>\<open>train\<close> returns, this file is the one logged as
  \<^verbatim>\<open>training_runs\<close>; when it raises, it is the file left behind. The only other
  case is that the evaluation of the null model raises, and then there is no file.
\<close>

theorem train_records_below_baseline:
  assumes "train E cfg s = (r, s')"
  shows "(\<exists>e. r = Inl e \<and> results s' = None) \<or>
         (\<exists>r0 trials.
            (\<exists>p0. run_project E (length (launched s))
                     (launch_request cfg 0
                        (if training_experiment_id cfg = - 1 then active_experiment_id E
                         else training_experiment_id cfg) (Finite 0, Finite 0)) = Inr p0 \<and>
                  rec_id r0 = run_id p0 \<and>
                  trial_losses cfg PosInf PosInf PosInf p0 =
                    Inr (rec_train r0, rec_valid r0, rec_test r0)) \<and>
            (\<forall>t \<in> set trials.
               pf_le (rec_valid t) (rec_valid r0) \<and>
               (\<exists>p. rec_id t = run_id p \<and>
                    trial_losses cfg (rec_train r0) (rec_valid r0) (rec_test r0) p =
                      Inr (rec_train t, rec_valid t, rec_test t))) \<and>
            length trials \<le> nat (max_runs cfg) \<and>
            (case r of
               Inl e \<Rightarrow>
                 results s' =
                   Some (record_line E r0 @ concat (map (record_line E) trials))
             | Inr b \<Rightarrow>
                 length trials = nat (max_runs cfg) \<and>
                 (''training_runs'',
                  record_line E r0 @ concat (map (record_line E) trials)) \<in>
                   set (artifacts s')))"
proof -
  let ?ex = "if training_experiment_id cfg = - 1 then active_experiment_id E
             else training_experiment_id cfg"
  let ?s0 = "s\<lparr>results := None, best_run_txt := None\<rparr>"
  have s0: "results ?s0 = None" "length (launched ?s0) = length (launched s)" by simp_all
  from train_cases [OF assms] consider
    (a) e where "null_eval E cfg ?ex ?s0 = (Inl e, s')" "r = Inl e"
  | (b) v where "null_eval E cfg ?ex ?s0 = (Inr (ValidLoss v), s')" "r = Inl TypeError"
  | (c) t v te s1 r2 s2 where "null_eval E cfg ?ex ?s0 = (Inr (AllLosses t v te), s1)"
      "search E cfg ?ex t v te s1 = (r2, s2)"
      "(\<exists>e. r2 = Inl e \<and> r = Inl e \<and> s' = s2) \<or>
       (\<exists>obs. r2 = Inr obs \<and> report E cfg s2 = (r, s'))"
    by blast
  then show ?thesis
  proof cases
    case a
    have "s' = ?s0\<lparr>launched := launched ?s0 @
                     [launch_request cfg 0 ?ex (Finite 0, Finite 0)]\<rparr>"
      using eval_Inl a(1) unfolding null_eval_def by blast
    then have "results s' = None" by simp
    then show ?thesis using a(2) by blast
  next
    case b
    from null_eval_record [OF b(1) s0(1)] show ?thesis by auto
  next
    case c
    from null_eval_record [OF c(1) s0(1)] obtain r0 p0 where
      n: "AllLosses t v te = AllLosses (rec_train r0) (rec_valid r0) (rec_test r0)"
         "run_project E (length (launched ?s0))
            (launch_request cfg 0 ?ex (Finite 0, Finite 0)) = Inr p0"
         "rec_id r0 = run_id p0"
         "trial_losses cfg PosInf PosInf PosInf p0 =
            Inr (rec_train r0, rec_valid r0, rec_test r0)"
         "rec_valid r0 \<noteq> NaN" "results s1 = Some (record_line E r0)"
      by blast
    have tv: "t = rec_train r0" "v = rec_valid r0" "te = rec_test r0" using n(1) by auto
    have "results s1 \<noteq> None" using n(6) by simp
    from fmin_loop_records [OF c(2) [unfolded search_def fmin_def tv] n(5) this]
    obtain trials where
      f: "results s2 = Some (content_of (results s1) @ concat (map (record_line E) trials))"
         "\<forall>t \<in> set trials.
            pf_le (rec_valid t) (rec_valid r0) \<and>
            (\<exists>p. rec_id t = run_id p \<and>
                 trial_losses cfg (rec_train r0) (rec_valid r0) (rec_test r0) p =
                   Inr (rec_train t, rec_valid t, rec_test t))"
         "length trials \<le> nat (max_runs cfg)"
         "(\<exists>obs'. r2 = Inr obs') \<longrightarrow> length trials = nat (max_runs cfg)"
      by blast
    have log: "results s2 = Some (record_line E r0 @ concat (map (record_line E) trials))"
      using f(1) n(6) by (simp add: content_of_def)
    have null: "\<exists>p0. run_project E (length (launched s))
                     (launch_request cfg 0 ?ex (Finite 0, Finite 0)) = Inr p0 \<and>
                  rec_id r0 = run_id p0 \<and>
                  trial_losses cfg PosInf PosInf PosInf p0 =
                    Inr (rec_train r0, rec_valid r0, rec_test r0)"
      using n(2,3,4) s0(2) by (intro exI [of _ p0]) simp
    have last: "case r of
               Inl e \<Rightarrow>
                 results s' =
                   Some (record_line E r0 @ concat (map (record_line E) trials))
             | Inr b \<Rightarrow>
                 length trials = nat (max_runs cfg) \<and>
                 (''training_runs'',
                  record_line E r0 @ concat (map (record_line E) trials)) \<in>
                   set (artifacts s')"
    proof (cases "\<exists>e. r2 = Inl e")
      case True
      then show ?thesis using c(3) log by auto
    next
      case False
      then obtain obs where o: "r2 = Inr obs" "report E cfg s2 = (r, s')"
        using c(3) by blast
      show ?thesis using report_result [OF o(2)] log f(4) o(1)
        by (cases r) auto
    qed
    show ?thesis using null f(2,3) last by blast
  qed
qed


text \<open>
  The example with a budget of three: the first trial fails, the second scores below the
  null model, the third logs NaN; the three validation losses written are 1.2, 0.5 and
  1.2 under a null loss of 1.2.
\<close>

theorem train_records_below_baseline_witness:
  "train example_env (example_cfg\<lparr>max_runs := 3\<rparr>) state_init =
     (Inr \<lparr>best_val_train = Finite 0.6, best_val_valid = Finite 0.5,
           best_val_test = Finite 0.4, best_run = Some ''r2''\<rparr>, (snd (train example_env (example_cfg\<lparr>max_runs := 3\<rparr>) state_init))) \<and>
   artifacts (snd (train example_env (example_cfg\<lparr>max_runs := 3\<rparr>) state_init)) =
     [(''training_runs'',
       ''b0 1.2 1.2 1.2\<newline>r1 1.2 1.2 1.2\<newline>r2 0.6 0.5 0.4\<newline>r3 1.2 1.2 1.2\<newline>''),
      (''best-run'', ''r2 0.5\<newline>'')] \<and>
   ((\<exists>e. (Inr \<lparr>best_val_train = Finite 0.6, best_val_valid = Finite 0.5,
                best_val_test = Finite 0.4, best_run = Some ''r2''\<rparr> :: error + best) = Inl e \<and> results (snd (train example_env (example_cfg\<lparr>max_runs := 3\<rparr>) state_init)) = None) \<or>
    (\<exists>r0 trials.
       (\<exists>p0. run_project example_env (length (launched state_init))
                (launch_request (example_cfg\<lparr>max_runs := 3\<rparr>) 0
                   (if training_experiment_id (example_cfg\<lparr>max_runs := 3\<rparr>) = - 1
                    then active_experiment_id example_env
                    else training_experiment_id (example_cfg\<lparr>max_runs := 3\<rparr>)) (Finite 0, Finite 0)) = Inr p0 \<and>
             rec_id r0 = run_id p0 \<and>
             trial_losses (example_cfg\<lparr>max_runs := 3\<rparr>) PosInf PosInf PosInf p0 =
               Inr (rec_train r0, rec_valid r0, rec_test r0)) \<and>
       (\<forall>t \<in> set trials.
          pf_le (rec_valid t) (rec_valid r0) \<and>
          (\<exists>p. rec_id t = run_id p \<and>
               trial_losses (example_cfg\<lparr>max_runs := 3\<rparr>) (rec_train r0) (rec_valid r0) (rec_test r0) p =
                 Inr (rec_train t, rec_valid t, rec_test t))) \<and>
       length trials \<le> nat (max_runs (example_cfg\<lparr>max_runs := 3\<rparr>)) \<and>
       (case (Inr \<lparr>best_val_train = Finite 0.6, best_val_valid = Finite 0.5,
                best_val_test = Finite 0.4, best_run = Some ''r2''\<rparr> :: error + best) of
          Inl e \<Rightarrow>
            results (snd (train example_env (example_cfg\<lparr>max_runs := 3\<rparr>) state_init)) =
              Some (record_line example_env r0 @
                    concat (map (record_line example_env) trials))
        | Inr b \<Rightarrow>
            length trials = nat (max_runs (example_cfg\<lparr>max_runs := 3\<rparr>)) \<and>
            (''training_runs'',
             record_line example_env r0 @
             concat (map (record_line example_env) trials)) \<in> set (artifacts (snd (train example_env (example_cfg\<lparr>max_runs := 3\<rparr>) state_init))))))"
proof -
  let ?cfg = "(example_cfg\<lparr>max_runs := 3\<rparr>)"
  let ?b = "\<lparr>best_val_train = Finite 0.6, best_val_valid = Finite 0.5,
             best_val_test = Finite 0.4, best_run = Some ''r2''\<rparr>"
  have "fst (train example_env ?cfg state_init) = Inr ?b"
    by (simp add: example_defs numeral_3_eq_3)
  then have h: "train example_env ?cfg state_init =
                  (Inr ?b, snd (train example_env ?cfg state_init))"
    by (metis prod.collapse)
  have a: "artifacts (snd (train example_env ?cfg state_init)) =
     [(''training_runs'',
       ''b0 1.2 1.2 1.2\<newline>r1 1.2 1.2 1.2\<newline>r2 0.6 0.5 0.4\<newline>r3 1.2 1.2 1.2\<newline>''),
      (''best-run'', ''r2 0.5\<newline>'')]"
    by (simp add: example_defs numeral_3_eq_3)
  show ?thesis
    by (intro conjI) (rule h, rule a, rule train_records_below_baseline [OF h])
qed


end
